theory Spec2Isabelle
  imports Complex_Main
begin

section \<open>Numbers, references and the random source\<close>

text \<open>
  The JavaScript numbers of the program are modelled as mathematical reals: every
  statement below is about finite values and exact arithmetic (no rounding, no NaN, no
  Infinity). Objects are mutable and shared (a Node is reached from the node array, from
  other nodes' connection lists and from pulses), so Node objects live in an explicit
  store indexed by reference, and every method becomes a function from world to world.

  \<open>Math.random()\<close> returns a number in the half-open interval from 0 to 1. The type
  \<open>unitreal\<close> is exactly that interval; the world carries an infinite sequence of draws
  and the number of draws consumed so far, so each call of \<open>Math.random()\<close> in the source
  is one \<open>nextRandom\<close> (the value) followed by one \<open>consume\<close> (the effect).
\<close>

typedef unitreal = "{r::real. 0 \<le> r \<and> r < 1}"
  by (rule exI[of _ 0]) simp

type_synonym nref = nat

text \<open>
  A pulse object of node.js: the four fields of the source, and \<open>p_ident\<close>, the identity
  of the JavaScript object (two records with the same \<open>p_ident\<close> are the same object
  instance). A pulse is held by exactly one container at a time (one node's pulse list or
  the pool), so pulses are stored by value with their identity.
\<close>

record pulse =
  p_ident :: nat
  p_source :: nref
  p_target :: nref
  p_progress :: real
  p_speed :: real

text \<open>The fields of class Node (node.js, constructor), each prefixed with \<open>n_\<close>.\<close>

record node =
  n_x :: real
  n_y :: real
  n_radius :: real
  n_type :: string
  n_connections :: "nref list"
  n_pulses :: "pulse list"
  n_processingPulses :: int
  n_color :: string
  n_active :: bool
  n_opacity :: real
  n_targetOpacity :: real
  n_activationTime :: real
  n_lastPulseTime :: real
  n_pulseInterval :: real
  n_isHovered :: bool
  n_isDragged :: bool
  n_vx :: real
  n_vy :: real

text \<open>
  The world: the node array (\<open>appState.nodes\<close>), the store of Node objects with its
  allocation counter, the module-level \<open>pulsePool\<close> of node.js with the counter that
  names fresh pulse objects, the random source, and the drag state of main.js and
  input-manager.js (\<open>appState.isDragging\<close>, \<open>appState.selectedNode\<close>, \<open>offsetX\<close>,
  \<open>offsetY\<close>).
\<close>

record world =
  nodes :: "nref list"
  store :: "nref \<Rightarrow> node"
  nextRef :: nref
  pulsePool :: "pulse list"
  nextPulse :: nat
  randoms :: "nat \<Rightarrow> unitreal"
  drawn :: nat
  isDragging :: bool
  selectedNode :: "nref option"
  offsetX :: real
  offsetY :: real

definition nextRandom :: "world \<Rightarrow> real" where
  "nextRandom w = Rep_unitreal (randoms w (drawn w))"

definition consume :: "world \<Rightarrow> world" where
  "consume w = w\<lparr>drawn := drawn w + 1\<rparr>"

text \<open>In-place mutation of the object behind a reference.\<close>

definition upd :: "nref \<Rightarrow> (node \<Rightarrow> node) \<Rightarrow> world \<Rightarrow> world" where
  "upd r f w = w\<lparr>store := (store w)(r := f (store w r))\<rparr>"

section \<open>node.js: the pulse pool\<close>

definition MAX_PULSE_COUNT :: nat where
  "MAX_PULSE_COUNT = 100"

definition PULSE_SPEED :: real where
  "PULSE_SPEED = 0.023"

text \<open>
  \<open>createPulse(source, target, speed)\<close>: pops the last pooled object and overwrites its
  four fields when the pool is not empty, and allocates a new object otherwise.
\<close>

definition createPulse :: "nref \<Rightarrow> nref \<Rightarrow> real \<Rightarrow> world \<Rightarrow> pulse \<times> world" where
  "createPulse src tgt spd w =
     (if length (pulsePool w) > 0
      then (let pulse = last (pulsePool w)
            in (pulse\<lparr>p_source := src, p_target := tgt, p_progress := 0, p_speed := spd\<rparr>,
                w\<lparr>pulsePool := butlast (pulsePool w)\<rparr>))
      else (\<lparr>p_ident = nextPulse w, p_source = src, p_target = tgt,
              p_progress = 0, p_speed = spd\<rparr>,
            w\<lparr>nextPulse := nextPulse w + 1\<rparr>))"

text \<open>\<open>recyclePulse(pulse)\<close>: pushes the object unless the pool already holds the maximum.\<close>

definition recyclePulse :: "pulse \<Rightarrow> world \<Rightarrow> world" where
  "recyclePulse pulse w =
     (if length (pulsePool w) < MAX_PULSE_COUNT
      then w\<lparr>pulsePool := pulsePool w @ [pulse]\<rparr>
      else w)"

section \<open>node.js: class Node\<close>

definition getColorForType :: "string \<Rightarrow> string" where
  "getColorForType type =
     (if type = ''source'' then ''#00ffcc''
      else if type = ''process'' then ''#00ccff''
      else if type = ''destination'' then ''#ff00cc''
      else ''#ffffff'')"

text \<open>
  \<open>new Node(x, y, radius, type)\<close>: the constructor draws three random numbers (the initial
  activity, \<open>activationTime\<close> and \<open>pulseInterval\<close>, in this order) and the object gets the
  next free reference.
\<close>

definition newNode :: "real \<Rightarrow> real \<Rightarrow> real \<Rightarrow> string \<Rightarrow> world \<Rightarrow> nref \<times> world" where
  "newNode x y radius type w =
     (let active = nextRandom w > 0.5; w1 = consume w;
          opacity = (if active then 1 else 0.3);
          activationTime = nextRandom w1 * 5000; w2 = consume w1;
          pulseInterval = 1000 + nextRandom w2 * 2000; w3 = consume w2;
          this = nextRef w3
      in (this,
          w3\<lparr>store := (store w3)(this :=
                \<lparr>n_x = x, n_y = y, n_radius = radius, n_type = type, n_connections = [],
                 n_pulses = [], n_processingPulses = 0, n_color = getColorForType type,
                 n_active = active, n_opacity = opacity, n_targetOpacity = opacity,
                 n_activationTime = activationTime, n_lastPulseTime = 0,
                 n_pulseInterval = pulseInterval, n_isHovered = False, n_isDragged = False,
                 n_vx = 0, n_vy = 0\<rparr>),
              nextRef := this + 1\<rparr>))"

text \<open>\<open>connect(node)\<close>: appends the target unless the list already includes it.\<close>

definition connect :: "nref \<Rightarrow> nref \<Rightarrow> world \<Rightarrow> world" where
  "connect this node w =
     (if node \<notin> set (n_connections (store w this))
      then upd this (\<lambda>n. n\<lparr>n_connections := n_connections n @ [node]\<rparr>) w
      else w)"

text \<open>
  \<open>sendRandomImpulse()\<close>. The conjunction of the first test short-circuits, so no number
  is drawn when the node has no connection. The draws are, in order: the gate (emission
  goes on when the draw exceeds 0.3), the index of the connection, and the speed of the
  pulse (drawn while the arguments of \<open>createPulse\<close> are evaluated). The index
  \<open>Math.floor(Math.random() * length)\<close> is below the length because the draw is below 1.
\<close>

definition sendRandomImpulse :: "nref \<Rightarrow> world \<Rightarrow> world" where
  "sendRandomImpulse this w =
     (if length (n_connections (store w this)) > 0
      then (if nextRandom w > 0.3
            then (let w1 = consume w;
                      randomIndex = nat \<lfloor>nextRandom w1 * real (length (n_connections (store w1 this)))\<rfloor>;
                      w2 = consume w1;
                      randomConnection = n_connections (store w2 this) ! randomIndex
                  in if n_opacity (store w2 randomConnection) > 0.5
                     then (let speed = 0.002 + nextRandom w2 * PULSE_SPEED;
                               w3 = consume w2;
                               (pulse, w4) = createPulse this randomConnection speed w3;
                               w5 = upd this (\<lambda>n. n\<lparr>n_pulses := n_pulses n @ [pulse]\<rparr>) w4
                           in if n_processingPulses (store w5 this) > 0
                              then upd this (\<lambda>n. n\<lparr>n_processingPulses := n_processingPulses n - 1\<rparr>) w5
                              else w5)
                     else w2)
            else consume w)
      else w)"

text \<open>
  \<open>updatePulses(deltaTime)\<close>. \<open>pulseStep\<close> is the body of the loop at index \<open>i\<close>: the
  pulse advances in place; when its progress has reached 1 the target's counter is
  incremented, the target is activated (its opacity and target opacity become 1), a target
  of type "process" forwards when a draw exceeds 0.7 (the draw is made only for a
  "process" target), the pulse is recycled and then spliced out of the owner's list. The
  loop runs from the last index down to 0.
\<close>

definition pulseStep :: "nref \<Rightarrow> real \<Rightarrow> nat \<Rightarrow> world \<Rightarrow> world" where
  "pulseStep this deltaTime i w =
     (let pulse0 = n_pulses (store w this) ! i;
          pulse = pulse0\<lparr>p_progress := p_progress pulse0 + p_speed pulse0 * (deltaTime / 16.667)\<rparr>;
          w1 = upd this (\<lambda>n. n\<lparr>n_pulses := (n_pulses n)[i := pulse]\<rparr>) w
      in if p_progress pulse \<ge> 1
         then (let tgt = p_target pulse;
                   w2 = upd tgt (\<lambda>n. n\<lparr>n_processingPulses := n_processingPulses n + 1\<rparr>) w1;
                   w3 = upd tgt (\<lambda>n. n\<lparr>n_active := True\<rparr>) w2;
                   w4 = upd tgt (\<lambda>n. n\<lparr>n_opacity := (if n_active n then 1 else 0.3)\<rparr>) w3;
                   w5 = upd tgt (\<lambda>n. n\<lparr>n_targetOpacity := n_opacity n\<rparr>) w4;
                   w6 = (if n_active (store w5 tgt)
                         then (if n_type (store w5 tgt) = ''process''
                               then (if nextRandom w5 > 0.7
                                     then sendRandomImpulse tgt (consume w5)
                                     else consume w5)
                               else w5)
                         else w5);
                   w7 = recyclePulse pulse w6
               in upd this (\<lambda>n. n\<lparr>n_pulses := take i (n_pulses n) @ drop (Suc i) (n_pulses n)\<rparr>) w7)
         else w1)"

fun updatePulsesFrom :: "nref \<Rightarrow> real \<Rightarrow> nat \<Rightarrow> world \<Rightarrow> world" where
  "updatePulsesFrom this deltaTime 0 w = w"
| "updatePulsesFrom this deltaTime (Suc i) w =
     updatePulsesFrom this deltaTime i (pulseStep this deltaTime i w)"

definition updatePulses :: "nref \<Rightarrow> real \<Rightarrow> world \<Rightarrow> world" where
  "updatePulses this deltaTime w =
     updatePulsesFrom this deltaTime (length (n_pulses (store w this))) w"

text \<open>
  The remainder operator \<open>%\<close> of JavaScript on numbers: the result has the sign of the
  dividend (the quotient is truncated towards zero). The divisors of the program are the
  constants 15000 and 1.
\<close>

definition js_rem :: "real \<Rightarrow> real \<Rightarrow> real" where
  "js_rem a b = a - b * of_int (if a / b < 0 then \<lceil>a / b\<rceil> else \<lfloor>a / b\<rfloor>)"

text \<open>
  \<open>update(time, deltaTime)\<close>. The second emission test short-circuits too: the draw
  against 0.98 is made only by a node of type "process" with a positive counter.
\<close>

definition update :: "nref \<Rightarrow> real \<Rightarrow> real \<Rightarrow> world \<Rightarrow> world" where
  "update this time deltaTime w =
     (let cycleDuration = 15000;
          cyclePosition = js_rem time cycleDuration / cycleDuration;
          nodePhase = n_activationTime (store w this) / 5000;
          nodePosition = js_rem (cyclePosition + nodePhase) 1;
          shouldBeActive = nodePosition < 0.7;
          w1 = upd this (\<lambda>n. n\<lparr>n_targetOpacity := (if shouldBeActive then 1 else 0.3)\<rparr>) w;
          w2 = (if n_isHovered (store w1 this) \<or> n_isDragged (store w1 this)
                then upd this (\<lambda>n. n\<lparr>n_targetOpacity := 1\<rparr>) w1
                else w1);
          w3 = upd this (\<lambda>n. if \<bar>n_opacity n - n_targetOpacity n\<bar> > 0.01
                              then n\<lparr>n_opacity := n_opacity n + (n_targetOpacity n - n_opacity n) * 0.05\<rparr>
                              else n\<lparr>n_opacity := n_targetOpacity n\<rparr>) w2;
          w4 = upd this (\<lambda>n. n\<lparr>n_active := n_opacity n > 0.7\<rparr>) w3;
          w5 = (if n_active (store w4 this) \<and> n_type (store w4 this) = ''source'' \<and>
                   time - n_lastPulseTime (store w4 this) > n_pulseInterval (store w4 this)
                then sendRandomImpulse this (upd this (\<lambda>n. n\<lparr>n_lastPulseTime := time\<rparr>) w4)
                else w4);
          w6 = (if n_type (store w5 this) = ''process'' \<and> n_processingPulses (store w5 this) > 0
                then (if nextRandom w5 > 0.98
                      then sendRandomImpulse this (consume w5)
                      else consume w5)
                else w5)
      in updatePulses this deltaTime w6)"

section \<open>network.js: building and pruning the network\<close>

text \<open>
  \<open>calculateOptimalNodeCount(width, height)\<close>; the canvas dimensions are not negative.
\<close>

definition calculateOptimalNodeCount :: "real \<Rightarrow> real \<Rightarrow> nat" where
  "calculateOptimalNodeCount width height =
     (let area = width * height; baseCount = 300
      in nat (max 15 (min 50 \<lfloor>baseCount * sqrt area / 1500\<rfloor>)))"

text \<open>
  \<open>createNodes(nodes, numNodes, width, height)\<close>: \<open>createNode\<close> is the body of the loop
  at index \<open>i\<close>. Position and radius are drawn before the constructor runs.
\<close>

definition createNode :: "nat \<Rightarrow> real \<Rightarrow> real \<Rightarrow> world \<Rightarrow> nat \<Rightarrow> world" where
  "createNode numNodes width height w i =
     (let x = nextRandom w * width; w1 = consume w;
          y = nextRandom w1 * height; w2 = consume w1;
          radius = 5 + nextRandom w2 * 8; w3 = consume w2;
          type = (if real i < real numNodes * 0.2 then ''source''
                  else if real i < real numNodes * 0.8 then ''process''
                  else ''destination'');
          (this, w4) = newNode x y radius type w3
      in w4\<lparr>nodes := nodes w4 @ [this]\<rparr>)"

definition createNodes :: "nat \<Rightarrow> real \<Rightarrow> real \<Rightarrow> world \<Rightarrow> world" where
  "createNodes numNodes width height w = foldl (createNode numNodes width height) w [0..<numNodes]"

text \<open>
  \<open>initializeConnections(nodes)\<close>. Its three inner loops have the same shape
  (\<open>for (i = 0; i < count && i < targets.length; i++)\<close>, each round drawing an index into
  \<open>targets\<close> and connecting to the node found there): \<open>connectRandomly\<close> is that loop for
  the number of rounds it makes, \<open>min count (length targets)\<close>, so an index is drawn only
  from a list that is not empty.
\<close>

fun connectRandomly :: "nref \<Rightarrow> nref list \<Rightarrow> nat \<Rightarrow> world \<Rightarrow> world" where
  "connectRandomly this targets 0 w = w"
| "connectRandomly this targets (Suc k) w =
     (let randomIndex = nat \<lfloor>nextRandom w * real (length targets)\<rfloor>;
          w1 = consume w
      in connectRandomly this targets k (connect this (targets ! randomIndex) w1))"

definition connectSource :: "nref list \<Rightarrow> world \<Rightarrow> nref \<Rightarrow> world" where
  "connectSource processes w source =
     (let numConnections = 1 + nat \<lfloor>nextRandom w * 3\<rfloor>; w1 = consume w
      in connectRandomly source processes (min numConnections (length processes)) w1)"

definition connectProcess :: "nref list \<Rightarrow> nref list \<Rightarrow> world \<Rightarrow> nref \<Rightarrow> world" where
  "connectProcess processes destinations w process =
     (let otherProcesses = filter (\<lambda>p. p \<noteq> process) processes;
          numProcessConnections = nat \<lfloor>nextRandom w * 2\<rfloor>; w1 = consume w;
          w2 = connectRandomly process otherProcesses
                 (min numProcessConnections (length otherProcesses)) w1;
          numDestConnections = 1 + nat \<lfloor>nextRandom w2 * 2\<rfloor>; w3 = consume w2
      in connectRandomly process destinations (min numDestConnections (length destinations)) w3)"

definition initializeConnections :: "world \<Rightarrow> world" where
  "initializeConnections w =
     (let sources = filter (\<lambda>n. n_type (store w n) = ''source'') (nodes w);
          processes = filter (\<lambda>n. n_type (store w n) = ''process'') (nodes w);
          destinations = filter (\<lambda>n. n_type (store w n) = ''destination'') (nodes w);
          w1 = foldl (connectSource processes) w sources
      in foldl (connectProcess processes destinations) w1 processes)"

text \<open>
  \<open>removeUnconnectedNodes(nodes)\<close>. \<open>incoming\<close> lists the keys of the map \<open>hasIncoming\<close>,
  filled once before the scan. The scan runs from the last index down to 0; a node that is
  not a source and is not a key of the map is first stripped from the connections of every
  node still in the array, then spliced out. The result is the flag \<open>hasRemovedNodes\<close>
  with the world.
\<close>

definition incoming :: "world \<Rightarrow> nref list" where
  "incoming w = concat (map (\<lambda>n. n_connections (store w n)) (nodes w))"

definition stripConnection :: "nref \<Rightarrow> world \<Rightarrow> nref \<Rightarrow> world" where
  "stripConnection node w otherNode =
     upd otherNode (\<lambda>n. n\<lparr>n_connections := filter (\<lambda>conn. conn \<noteq> node) (n_connections n)\<rparr>) w"

fun removeScan :: "nref list \<Rightarrow> nat \<Rightarrow> bool \<times> world \<Rightarrow> bool \<times> world" where
  "removeScan hasIncoming 0 (hasRemovedNodes, w) = (hasRemovedNodes, w)"
| "removeScan hasIncoming (Suc i) (hasRemovedNodes, w) =
     (let node = nodes w ! i
      in if n_type (store w node) \<noteq> ''source'' \<and> node \<notin> set hasIncoming
         then (let w1 = foldl (stripConnection node) w (nodes w);
                   w2 = w1\<lparr>nodes := take i (nodes w1) @ drop (Suc i) (nodes w1)\<rparr>
               in removeScan hasIncoming i (True, w2))
         else removeScan hasIncoming i (hasRemovedNodes, w))"

definition removeUnconnectedNodes :: "world \<Rightarrow> bool \<times> world" where
  "removeUnconnectedNodes w = removeScan (incoming w) (length (nodes w)) (False, w)"

text \<open>
  \<open>optimizeNetwork(nodes)\<close>: at most \<open>MAX_ITERATIONS\<close> = 5 passes, leaving the loop early
  after a pass that removed nothing. \<open>optimizeLoop\<close> is the while loop for the number of
  passes still allowed; it returns the last value of \<open>hasRemovedNodes\<close> with the world.
\<close>

definition MAX_ITERATIONS :: nat where
  "MAX_ITERATIONS = 5"

fun optimizeLoop :: "nat \<Rightarrow> bool \<times> world \<Rightarrow> bool \<times> world" where
  "optimizeLoop 0 (hasRemovedNodes, w) = (hasRemovedNodes, w)"
| "optimizeLoop (Suc k) (hasRemovedNodes, w) =
     (let (removed, w1) = removeUnconnectedNodes w
      in if \<not> removed then (removed, w1) else optimizeLoop k (removed, w1))"

definition optimizeNetwork :: "world \<Rightarrow> world" where
  "optimizeNetwork w = snd (optimizeLoop MAX_ITERATIONS (False, w))"

text \<open>\<open>createNetwork(width, height)\<close>, started in a world whose node array is empty.\<close>

definition createNetwork :: "real \<Rightarrow> real \<Rightarrow> world \<Rightarrow> world" where
  "createNetwork width height w =
     (let numNodes = calculateOptimalNodeCount width height;
          w1 = createNodes numNodes width height (w\<lparr>nodes := []\<rparr>);
          w2 = initializeConnections w1
      in optimizeNetwork w2)"

section \<open>force-layout.js: the layout pass\<close>

text \<open>
  The content rectangle handed over by main.js, and the parameter object \<open>config\<close> of
  \<open>applyForceLayout\<close>. The canvas has a positive width and height; the quotients by
  \<open>Math.min(width, height)\<close> and by \<open>edgePadding\<close> are taken on such a canvas only.
\<close>

record rect =
  r_left :: real
  r_right :: real
  r_top :: real
  r_bottom :: real
  r_width :: real
  r_height :: real

record config =
  c_iterations :: nat
  c_repulsionForce :: real
  c_attractionForce :: real
  c_contentRepulsionForce :: real
  c_contentPadding :: real
  c_maxDisplacement :: real
  c_coolingFactor :: real
  c_minDistance :: real
  c_edgePadding :: real
  c_edgeForce :: real

definition makeConfig :: "real \<Rightarrow> real \<Rightarrow> real \<Rightarrow> config" where
  "makeConfig width height strength =
     \<lparr>c_iterations = (if strength > 0.5 then 2 else 1),
      c_repulsionForce = 5000 * strength,
      c_attractionForce = 0.004 * strength,
      c_contentRepulsionForce = 3.0 * strength,
      c_contentPadding = 20,
      c_maxDisplacement = 15 * strength,
      c_coolingFactor = 0.9,
      c_minDistance = min width height * 0.15,
      c_edgePadding = min width height * 0.01,
      c_edgeForce = 1 * strength\<rparr>"

text \<open>The rectangle used when \<open>contentRect\<close> is not provided.\<close>

definition defaultContentRect :: "real \<Rightarrow> real \<Rightarrow> rect" where
  "defaultContentRect width height =
     (let contentWidth = min 600 (width * 0.8);
          contentHeight = min 400 (height * 0.6)
      in \<lparr>r_left = width / 2 - contentWidth / 2,
          r_right = width / 2 + contentWidth / 2,
          r_top = height / 2 - contentHeight / 2,
          r_bottom = height / 2 + contentHeight / 2,
          r_width = contentWidth,
          r_height = contentHeight\<rparr>)"

text \<open>\<open>enforceBoundaries(node, width, height)\<close>, on the node object.\<close>

definition enforceBoundaries :: "real \<Rightarrow> real \<Rightarrow> node \<Rightarrow> node" where
  "enforceBoundaries width height n =
     (let margin = n_radius n * 2;
          n1 = (if n_x n < margin
                then n\<lparr>n_x := margin, n_vx := \<bar>n_vx n\<bar> * 0.5\<rparr> else n);
          n2 = (if n_x n1 > width - margin
                then n1\<lparr>n_x := width - margin, n_vx := - \<bar>n_vx n1\<bar> * 0.5\<rparr> else n1);
          n3 = (if n_y n2 < margin
                then n2\<lparr>n_y := margin, n_vy := \<bar>n_vy n2\<bar> * 0.5\<rparr> else n2)
      in if n_y n3 > height - margin
         then n3\<lparr>n_y := height - margin, n_vy := - \<bar>n_vy n3\<bar> * 0.5\<rparr> else n3)"

text \<open>\<open>limitVelocities(nodes, config)\<close>: \<open>limitVelocity\<close> is the callback on one node.\<close>

definition limitVelocity :: "config \<Rightarrow> node \<Rightarrow> node" where
  "limitVelocity cfg n =
     (let displacement = sqrt (n_vx n * n_vx n + n_vy n * n_vy n);
          n1 = (if displacement > c_maxDisplacement cfg
                then (let scale = c_maxDisplacement cfg / displacement
                      in n\<lparr>n_vx := n_vx n * scale, n_vy := n_vy n * scale\<rparr>)
                else n)
      in n1\<lparr>n_vx := n_vx n1 * c_coolingFactor cfg, n_vy := n_vy n1 * c_coolingFactor cfg\<rparr>)"

definition limitVelocities :: "config \<Rightarrow> world \<Rightarrow> world" where
  "limitVelocities cfg w = foldl (\<lambda>v node. upd node (limitVelocity cfg) v) w (nodes w)"

text \<open>\<open>applyContentRepulsion(node, contentRect, config)\<close>, on the node object.\<close>

definition applyContentRepulsion :: "rect \<Rightarrow> config \<Rightarrow> node \<Rightarrow> node" where
  "applyContentRepulsion contentRect cfg n =
     (let left = r_left contentRect - c_contentPadding cfg;
          right = r_right contentRect + c_contentPadding cfg;
          top = r_top contentRect - c_contentPadding cfg;
          bottom = r_bottom contentRect + c_contentPadding cfg;
          isInXRange = (n_x n \<ge> left \<and> n_x n \<le> right);
          isInYRange = (n_y n \<ge> top \<and> n_y n \<le> bottom)
      in if isInXRange \<and> isInYRange
         then (let distToLeft = n_x n - left;
                   distToRight = right - n_x n;
                   distToTop = n_y n - top;
                   distToBottom = bottom - n_y n;
                   minDist = min distToLeft (min distToRight (min distToTop distToBottom));
                   force = c_contentRepulsionForce cfg * 3
               in if minDist = distToLeft then n\<lparr>n_vx := n_vx n - force\<rparr>
                  else if minDist = distToRight then n\<lparr>n_vx := n_vx n + force\<rparr>
                  else if minDist = distToTop then n\<lparr>n_vy := n_vy n - force\<rparr>
                  else if minDist = distToBottom then n\<lparr>n_vy := n_vy n + force\<rparr>
                  else n)
         else (let closestX = max left (min (n_x n) right);
                   closestY = max top (min (n_y n) bottom);
                   dx = n_x n - closestX;
                   dy = n_y n - closestY;
                   distance = sqrt (dx * dx + dy * dy);
                   repulsionRadius = min 100 (max 50 ((r_width contentRect + r_height contentRect) / 8))
               in if distance < repulsionRadius \<and> distance > 0
                  then (let force = c_contentRepulsionForce cfg * (1 - distance / repulsionRadius)
                        in n\<lparr>n_vx := n_vx n + (dx / distance) * force,
                             n_vy := n_vy n + (dy / distance) * force\<rparr>)
                  else n))"

text \<open>\<open>applyEdgeForces(node, width, height, config)\<close>, on the node object.\<close>

definition applyEdgeForces :: "real \<Rightarrow> real \<Rightarrow> config \<Rightarrow> node \<Rightarrow> node" where
  "applyEdgeForces width height cfg n =
     (let scaledEdgeForce = c_edgeForce cfg * (1 + (1000 / min width height));
          n1 = (if n_x n < c_edgePadding cfg
                then n\<lparr>n_vx := n_vx n + scaledEdgeForce * (1 - n_x n / c_edgePadding cfg)\<^sup>2\<rparr>
                else n);
          n2 = (if n_x n1 > width - c_edgePadding cfg
                then n1\<lparr>n_vx := n_vx n1 -
                        scaledEdgeForce * (1 - (width - n_x n1) / c_edgePadding cfg)\<^sup>2\<rparr>
                else n1);
          n3 = (if n_y n2 < c_edgePadding cfg
                then n2\<lparr>n_vy := n_vy n2 + scaledEdgeForce * (1 - n_y n2 / c_edgePadding cfg)\<^sup>2\<rparr>
                else n2)
      in if n_y n3 > height - c_edgePadding cfg
         then n3\<lparr>n_vy := n_vy n3 -
                 scaledEdgeForce * (1 - (height - n_y n3) / c_edgePadding cfg)\<^sup>2\<rparr>
         else n3)"

text \<open>
  \<open>applyNodeRepulsion(nodeA, nodes, startIndex, config)\<close>: \<open>repelPair\<close> is the body of the
  loop for one \<open>nodeB\<close>; the loop visits the array from index \<open>startIndex + 1\<close> on. The
  distance \<open>Math.sqrt(...) || 1\<close> is 1 when the root is 0.
\<close>

definition repelPair :: "config \<Rightarrow> nref \<Rightarrow> world \<Rightarrow> nref \<Rightarrow> world" where
  "repelPair cfg nodeA w nodeB =
     (if n_isDragged (store w nodeB) then w
      else (let dx = n_x (store w nodeB) - n_x (store w nodeA);
                dy = n_y (store w nodeB) - n_y (store w nodeA);
                root = sqrt (dx * dx + dy * dy);
                distance = (if root = 0 then 1 else root)
            in if distance < c_minDistance cfg * 2
               then (let force = c_repulsionForce cfg / (distance * distance);
                         forceX = (dx / distance) * force;
                         forceY = (dy / distance) * force;
                         w1 = upd nodeA (\<lambda>n. n\<lparr>n_vx := n_vx n - forceX\<rparr>) w;
                         w2 = upd nodeA (\<lambda>n. n\<lparr>n_vy := n_vy n - forceY\<rparr>) w1;
                         w3 = upd nodeB (\<lambda>n. n\<lparr>n_vx := n_vx n + forceX\<rparr>) w2
                     in upd nodeB (\<lambda>n. n\<lparr>n_vy := n_vy n + forceY\<rparr>) w3)
               else w))"

definition applyNodeRepulsion :: "config \<Rightarrow> nref \<Rightarrow> nat \<Rightarrow> world \<Rightarrow> world" where
  "applyNodeRepulsion cfg nodeA startIndex w =
     foldl (repelPair cfg nodeA) w (drop (startIndex + 1) (nodes w))"

text \<open>
  \<open>applyConnectionAttractions(nodes, config)\<close>: \<open>attractPair\<close> is the inner callback for
  one connected node, \<open>attractNode\<close> the outer callback for one node.
\<close>

definition attractPair :: "config \<Rightarrow> nref \<Rightarrow> world \<Rightarrow> nref \<Rightarrow> world" where
  "attractPair cfg node w connectedNode =
     (if n_isDragged (store w connectedNode) then w
      else (let dx = n_x (store w connectedNode) - n_x (store w node);
                dy = n_y (store w connectedNode) - n_y (store w node);
                root = sqrt (dx * dx + dy * dy);
                distance = (if root = 0 then 1 else root);
                force = distance * c_attractionForce cfg;
                forceX = (dx / distance) * force;
                forceY = (dy / distance) * force;
                w1 = upd node (\<lambda>n. n\<lparr>n_vx := n_vx n + forceX\<rparr>) w;
                w2 = upd node (\<lambda>n. n\<lparr>n_vy := n_vy n + forceY\<rparr>) w1;
                w3 = upd connectedNode (\<lambda>n. n\<lparr>n_vx := n_vx n - forceX\<rparr>) w2
            in upd connectedNode (\<lambda>n. n\<lparr>n_vy := n_vy n - forceY\<rparr>) w3))"

definition attractNode :: "config \<Rightarrow> world \<Rightarrow> nref \<Rightarrow> world" where
  "attractNode cfg w node =
     (if n_isDragged (store w node) then w
      else foldl (attractPair cfg node) w (n_connections (store w node)))"

definition applyConnectionAttractions :: "config \<Rightarrow> world \<Rightarrow> world" where
  "applyConnectionAttractions cfg w = foldl (attractNode cfg) w (nodes w)"

text \<open>
  \<open>applyForces(nodes, centerX, centerY, width, height, contentRect, config)\<close>:
  \<open>forceStep\<close> is the body of the loop at index \<open>a\<close> (the parameters \<open>centerX\<close> and
  \<open>centerY\<close> are not used by the source).
\<close>

definition forceStep :: "real \<Rightarrow> real \<Rightarrow> rect \<Rightarrow> config \<Rightarrow> world \<Rightarrow> nat \<Rightarrow> world" where
  "forceStep width height contentRect cfg w a =
     (let nodeA = nodes w ! a
      in if n_isDragged (store w nodeA) then w
         else (let w1 = upd nodeA (applyContentRepulsion contentRect cfg) w;
                   w2 = upd nodeA (applyEdgeForces width height cfg) w1
               in applyNodeRepulsion cfg nodeA a w2))"

definition applyForces :: "real \<Rightarrow> real \<Rightarrow> rect \<Rightarrow> config \<Rightarrow> world \<Rightarrow> world" where
  "applyForces width height contentRect cfg w =
     applyConnectionAttractions cfg
       (foldl (forceStep width height contentRect cfg) w [0..<length (nodes w)])"

text \<open>
  \<open>applyForceLayout(nodes, width, height, contentRect, strength)\<close>. \<open>snapshotStep\<close> is
  the first callback: it records the velocity of the node in the map
  \<open>originalVelocities\<close> and sets it to zero. \<open>blendStep\<close> is the last callback: it blends
  the new velocity with the recorded one (\<open>blendFactor\<close> = 0.7) and enforces the
  boundaries. Neither callback looks at \<open>isDragged\<close>.
\<close>

definition snapshotStep ::
  "(nref \<rightharpoonup> real \<times> real) \<times> world \<Rightarrow> nref \<Rightarrow> (nref \<rightharpoonup> real \<times> real) \<times> world" where
  "snapshotStep mw node =
     (let originalVelocities = fst mw; w = snd mw;
          m1 = originalVelocities(node \<mapsto> (n_vx (store w node), n_vy (store w node)));
          w1 = upd node (\<lambda>n. n\<lparr>n_vx := 0\<rparr>) w
      in (m1, upd node (\<lambda>n. n\<lparr>n_vy := 0\<rparr>) w1))"

definition blendStep ::
  "real \<Rightarrow> real \<Rightarrow> (nref \<rightharpoonup> real \<times> real) \<Rightarrow> world \<Rightarrow> nref \<Rightarrow> world" where
  "blendStep width height originalVelocities w node =
     (let w1 = (case originalVelocities node of
                  Some (ovx, ovy) \<Rightarrow>
                    (let blendFactor = 0.7;
                         v1 = upd node (\<lambda>n. n\<lparr>n_vx := n_vx n * blendFactor + ovx * (1 - blendFactor)\<rparr>) w
                     in upd node (\<lambda>n. n\<lparr>n_vy := n_vy n * blendFactor + ovy * (1 - blendFactor)\<rparr>) v1)
                | None \<Rightarrow> w)
      in upd node (enforceBoundaries width height) w1)"

definition applyForceLayout :: "real \<Rightarrow> real \<Rightarrow> rect option \<Rightarrow> real \<Rightarrow> world \<Rightarrow> world" where
  "applyForceLayout width height contentRect strength w =
     (if strength \<le> 0 then w
      else (let cfg = makeConfig width height strength;
                (originalVelocities, w1) = foldl snapshotStep (Map.empty, w) (nodes w);
                rect = (case contentRect of None \<Rightarrow> defaultContentRect width height
                        | Some given \<Rightarrow> given);
                w2 = ((\<lambda>v. limitVelocities cfg (applyForces width height rect cfg v))
                        ^^ c_iterations cfg) w1
            in foldl (blendStep width height originalVelocities) w2 (nodes w2)))"

text \<open>
  \<open>updatePositions(nodes, width, height, animationSpeed)\<close>: \<open>positionStep\<close> is the
  callback on one node object.
\<close>

definition positionStep :: "real \<Rightarrow> real \<Rightarrow> real \<Rightarrow> node \<Rightarrow> node" where
  "positionStep width height animationSpeed n =
     (if n_isDragged n then n
      else (let n1 = n\<lparr>n_x := n_x n + n_vx n * animationSpeed\<rparr>;
                n2 = n1\<lparr>n_y := n_y n1 + n_vy n1 * animationSpeed\<rparr>;
                padding = n_radius n2 * 2
            in if n_x n2 < padding \<or> n_x n2 > width - padding \<or>
                  n_y n2 < padding \<or> n_y n2 > height - padding
               then (let n3 = (if n_x n2 < padding
                               then n2\<lparr>n_x := padding, n_vx := \<bar>n_vx n2\<bar> * 0.5\<rparr> else n2);
                         n4 = (if n_x n3 > width - padding
                               then n3\<lparr>n_x := width - padding, n_vx := - \<bar>n_vx n3\<bar> * 0.5\<rparr>
                               else n3);
                         n5 = (if n_y n4 < padding
                               then n4\<lparr>n_y := padding, n_vy := \<bar>n_vy n4\<bar> * 0.5\<rparr> else n4)
                     in if n_y n5 > height - padding
                        then n5\<lparr>n_y := height - padding, n_vy := - \<bar>n_vy n5\<bar> * 0.5\<rparr>
                        else n5)
               else n2))"


section \<open>main.js: the per-frame damping\<close>

text \<open>
  In \<open>renderNodes\<close>, after \<open>updatePositions\<close>, the velocity of every node that is not
  dragged is multiplied by 0.999.
\<close>

definition dampVelocity :: "node \<Rightarrow> node" where
  "dampVelocity n =
     (if \<not> n_isDragged n then n\<lparr>n_vx := n_vx n * 0.999, n_vy := n_vy n * 0.999\<rparr> else n)"

definition dampVelocities :: "world \<Rightarrow> world" where
  "dampVelocities w = foldl (\<lambda>v node. upd node dampVelocity v) w (nodes w)"

section \<open>input-manager.js: pressing, dragging and releasing\<close>

text \<open>
  \<open>checkNodeSelection(x, y, appState)\<close>, called by \<open>handleMouseDown\<close> and
  \<open>handleTouchStart\<close> with the pointer position on the canvas: the first node of the
  array within 1.5 radii of the point becomes the dragged node. \<open>selectFrom\<close> is the loop
  over the rest of the array.
\<close>

fun selectFrom :: "real \<Rightarrow> real \<Rightarrow> nref list \<Rightarrow> world \<Rightarrow> world" where
  "selectFrom x y [] w = w"
| "selectFrom x y (node # rest) w =
     (let dx = x - n_x (store w node);
          dy = y - n_y (store w node);
          distance = sqrt (dx * dx + dy * dy)
      in if distance \<le> n_radius (store w node) * 1.5
         then (upd node (\<lambda>n. n\<lparr>n_isDragged := True\<rparr>)
                 (w\<lparr>isDragging := True, selectedNode := Some node\<rparr>))
                \<lparr>offsetX := dx, offsetY := dy\<rparr>
         else selectFrom x y rest w)"

definition checkNodeSelection :: "real \<Rightarrow> real \<Rightarrow> world \<Rightarrow> world" where
  "checkNodeSelection x y w = selectFrom x y (nodes w) w"

text \<open>
  \<open>handleMouseMove\<close>, with the pointer position and the canvas size: every hover flag is
  cleared; when nothing is dragged the first node under the pointer is hovered
  (\<open>hoverFrom\<close>); when a node is dragged it is moved to the pointer minus the press
  offset, and kept between \<open>radius\<close> and \<open>canvas size - radius\<close> on both axes
  (\<open>dragSelected\<close>, which is also what \<open>handleTouchMove\<close> does while dragging).
\<close>

fun hoverFrom :: "real \<Rightarrow> real \<Rightarrow> nref list \<Rightarrow> world \<Rightarrow> world" where
  "hoverFrom mouseX mouseY [] w = w"
| "hoverFrom mouseX mouseY (node # rest) w =
     (let dx = mouseX - n_x (store w node);
          dy = mouseY - n_y (store w node);
          distance = sqrt (dx * dx + dy * dy)
      in if distance \<le> n_radius (store w node) * 1.5
         then upd node (\<lambda>n. n\<lparr>n_isHovered := True\<rparr>) w
         else hoverFrom mouseX mouseY rest w)"

definition dragSelected :: "real \<Rightarrow> real \<Rightarrow> real \<Rightarrow> real \<Rightarrow> world \<Rightarrow> world" where
  "dragSelected mouseX mouseY canvasWidth canvasHeight w =
     (case selectedNode w of
        None \<Rightarrow> w
      | Some node \<Rightarrow>
          (let w1 = upd node (\<lambda>n. n\<lparr>n_x := mouseX - offsetX w\<rparr>) w;
               w2 = upd node (\<lambda>n. n\<lparr>n_y := mouseY - offsetY w1\<rparr>) w1;
               w3 = upd node (\<lambda>n. n\<lparr>n_x := max (n_radius n) (min (canvasWidth - n_radius n) (n_x n))\<rparr>) w2
           in upd node (\<lambda>n. n\<lparr>n_y := max (n_radius n) (min (canvasHeight - n_radius n) (n_y n))\<rparr>) w3))"

definition handleMouseMove :: "real \<Rightarrow> real \<Rightarrow> real \<Rightarrow> real \<Rightarrow> world \<Rightarrow> world" where
  "handleMouseMove mouseX mouseY canvasWidth canvasHeight w =
     (let w1 = foldl (\<lambda>v node. upd node (\<lambda>n. n\<lparr>n_isHovered := False\<rparr>) v) w (nodes w);
          w2 = (if \<not> isDragging w1 then hoverFrom mouseX mouseY (nodes w1) w1 else w1)
      in if isDragging w2 then dragSelected mouseX mouseY canvasWidth canvasHeight w2 else w2)"

definition handleTouchMove :: "real \<Rightarrow> real \<Rightarrow> real \<Rightarrow> real \<Rightarrow> world \<Rightarrow> world" where
  "handleTouchMove mouseX mouseY canvasWidth canvasHeight w =
     (if isDragging w then dragSelected mouseX mouseY canvasWidth canvasHeight w else w)"


section \<open>The initial world\<close>

text \<open>
  Before \<open>initApp\<close> runs there is no node, the pool is empty and nothing is dragged.
  \<open>blankNode\<close> fills the cells of the store that no constructor has written yet; no
  reference to such a cell exists.
\<close>

definition blankNode :: node where
  "blankNode =
     \<lparr>n_x = 0, n_y = 0, n_radius = 0, n_type = [], n_connections = [], n_pulses = [],
      n_processingPulses = 0, n_color = [], n_active = False, n_opacity = 0,
      n_targetOpacity = 0, n_activationTime = 0, n_lastPulseTime = 0, n_pulseInterval = 0,
      n_isHovered = False, n_isDragged = False, n_vx = 0, n_vy = 0\<rparr>"

definition initialWorld :: "(nat \<Rightarrow> unitreal) \<Rightarrow> world" where
  "initialWorld rs =
     \<lparr>nodes = [], store = (\<lambda>r. blankNode), nextRef = 0, pulsePool = [], nextPulse = 0,
      randoms = rs, drawn = 0, isDragging = False, selectedNode = None,
      offsetX = 0, offsetY = 0\<rparr>"

section \<open>Concrete worlds\<close>

text \<open>
  A random source given by a finite list of draws (0 after the end of the list), and the
  smallest network with an edge: node 0 of type "process" connected to node 1 of type
  "destination", both built by the constructor and \<open>connect\<close>. The first six draws are
  consumed by the two constructors.
\<close>

definition draws :: "real list \<Rightarrow> nat \<Rightarrow> unitreal" where
  "draws xs i = Abs_unitreal (if i < length xs \<and> 0 \<le> xs ! i \<and> xs ! i < 1 then xs ! i else 0)"

definition demoPair :: "real list \<Rightarrow> world" where
  "demoPair ds =
     connect 0 1
       (snd (newNode 30 30 5 ''destination''
          (snd (newNode 10 10 5 ''process'' (initialWorld (draws ds))))))"

text \<open>
  A chain of three nodes built the same way: node 0 of type "source" connected to node 1
  of type "process", connected to node 2 of type "destination" (nine constructor draws).
\<close>

definition demoChain :: "real list \<Rightarrow> world" where
  "demoChain ds =
     connect 1 2 (connect 0 1
       (snd (newNode 50 50 5 ''destination''
          (snd (newNode 30 30 5 ''process''
             (snd (newNode 10 10 5 ''source'' (initialWorld (draws ds)))))))))"


definition demoSolo :: "real list \<Rightarrow> world" where
  "demoSolo ds = (snd (newNode 100 300 5 ''process'' (initialWorld (draws ds))))\<lparr>nodes := [0]\<rparr>"

section \<open>Notions used by the statements\<close>

text \<open>
  The opacity invariant of a node; a pulse after one advance of \<open>updatePulses\<close>; and the
  number of pulses of a list that reach progress 1 at a given target in one advance.
\<close>

definition opacityInv :: "node \<Rightarrow> bool" where
  "opacityInv n \<longleftrightarrow>
     0.3 \<le> n_opacity n \<and> n_opacity n \<le> 1 \<and> (n_targetOpacity n = 0.3 \<or> n_targetOpacity n = 1)"

definition advance :: "real \<Rightarrow> pulse \<Rightarrow> pulse" where
  "advance deltaTime p = p\<lparr>p_progress := p_progress p + p_speed p * (deltaTime / 16.667)\<rparr>"

definition arrivals :: "real \<Rightarrow> nref \<Rightarrow> pulse list \<Rightarrow> nat" where
  "arrivals deltaTime t ps =
     length (filter (\<lambda>p. p_target p = t \<and> 1 \<le> p_progress (advance deltaTime p)) ps)"

text \<open>
  The condition, read in the world before a pulse step, under which a forward by the
  target \<open>t\<close> of an arriving pulse emits: the step draws the forward gate first
  (\<open>nextRandom w\<close>, against 0.7), so the emission gate of \<open>sendRandomImpulse\<close> is the
  next draw and the connection index the one after; \<open>t\<close> has a connection, the emission
  gate exceeds 0.3, and the chosen connection is visible (its opacity exceeds 0.5, which
  holds of \<open>t\<close> itself, whose opacity the arrival has just set to 1).
\<close>

definition forwardEmits :: "nref \<Rightarrow> world \<Rightarrow> bool" where
  "forwardEmits t w \<longleftrightarrow>
     (let conns = n_connections (store w t);
          randomConnection = conns ! nat \<lfloor>nextRandom (consume (consume w)) * real (length conns)\<rfloor>
      in conns \<noteq> [] \<and> nextRandom (consume w) > 0.3 \<and>
         (randomConnection = t \<or> n_opacity (store w randomConnection) > 0.5))"

text \<open>The two clamps of one axis, on numbers.\<close>

definition clampLow :: "real \<Rightarrow> real \<Rightarrow> real" where
  "clampLow padding x = (if x < padding then padding else x)"

definition clampHigh :: "real \<Rightarrow> real \<Rightarrow> real" where
  "clampHigh limit x = (if x > limit then limit else x)"

section \<open>Basic facts\<close>

lemma Rep_draws [simp]:
  "Rep_unitreal (draws xs i) = (if i < length xs \<and> 0 \<le> xs ! i \<and> xs ! i < 1 then xs ! i else 0)"
  by (simp add: draws_def Abs_unitreal_inverse)

lemma nextRandom_range: "0 \<le> nextRandom w" "nextRandom w < 1"
  using Rep_unitreal [of "randoms w (drawn w)"] by (simp_all add: nextRandom_def)

lemma consume_simps [simp]:
  "store (consume w) = store w" "nodes (consume w) = nodes w"
  "pulsePool (consume w) = pulsePool w" "nextPulse (consume w) = nextPulse w"
  "nextRef (consume w) = nextRef w" "randoms (consume w) = randoms w"
  "drawn (consume w) = drawn w + 1" "isDragging (consume w) = isDragging w"
  "selectedNode (consume w) = selectedNode w" "offsetX (consume w) = offsetX w"
  "offsetY (consume w) = offsetY w"
  by (simp_all add: consume_def)

lemma upd_simps [simp]:
  "store (upd r f w) = (store w)(r := f (store w r))" "nodes (upd r f w) = nodes w"
  "pulsePool (upd r f w) = pulsePool w" "nextPulse (upd r f w) = nextPulse w"
  "nextRef (upd r f w) = nextRef w" "randoms (upd r f w) = randoms w"
  "drawn (upd r f w) = drawn w" "isDragging (upd r f w) = isDragging w"
  "selectedNode (upd r f w) = selectedNode w" "offsetX (upd r f w) = offsetX w"
  "offsetY (upd r f w) = offsetY w"
  by (simp_all add: upd_def)

lemma nextRandom_upd [simp]: "nextRandom (upd r f w) = nextRandom w"
  by (simp add: nextRandom_def)

text \<open>
  \<open>Math.floor(Math.random() * n)\<close> is an index below \<open>n\<close>, and it is \<open>k\<close> exactly for the
  draws of the \<open>k\<close>-th of \<open>n\<close> intervals of equal length: a uniform draw gives a uniform
  index.
\<close>

lemma randomIndex_less: "0 < n \<Longrightarrow> nat \<lfloor>nextRandom w * real n\<rfloor> < n"
proof -
  assume n: "0 < n"
  have "nextRandom w * real n < real n"
    using nextRandom_range(2) [of w] n by simp
  then have "\<lfloor>nextRandom w * real n\<rfloor> < int n"
    by (simp add: floor_less_iff)
  with n show ?thesis by linarith
qed

lemma randomIndex_eq:
  assumes "0 < n"
  shows "nat \<lfloor>nextRandom w * real n\<rfloor> = k \<longleftrightarrow>
         real k / real n \<le> nextRandom w \<and> nextRandom w < real (Suc k) / real n"
proof -
  have nn: "0 \<le> nextRandom w * real n"
    using nextRandom_range(1) [of w] by simp
  have "nat \<lfloor>nextRandom w * real n\<rfloor> = k \<longleftrightarrow> \<lfloor>nextRandom w * real n\<rfloor> = int k"
    using nn by (metis floor_eq_iff nat_int of_int_of_nat_eq of_nat_0_le_iff zero_le_floor nat_0_le)
  also have "\<dots> \<longleftrightarrow> real k \<le> nextRandom w * real n \<and> nextRandom w * real n < real k + 1"
    by (simp add: floor_eq_iff)
  also have "\<dots> \<longleftrightarrow> real k / real n \<le> nextRandom w \<and> nextRandom w < real (Suc k) / real n"
    using assms by (simp add: pos_divide_le_eq pos_less_divide_eq add.commute)
  finally show ?thesis .
qed

lemma speed_band:
  "0.002 \<le> 0.002 + nextRandom w * PULSE_SPEED" "0.002 + nextRandom w * PULSE_SPEED < 0.025"
  using nextRandom_range [of w] by (simp_all add: PULSE_SPEED_def)

text \<open>The definitions unfolded to run the model on a concrete world.\<close>

lemmas demo_defs =
  demoPair_def demoChain_def newNode_def connect_def initialWorld_def sendRandomImpulse_def
  createPulse_def recyclePulse_def MAX_PULSE_COUNT_def getColorForType_def Let_def
  nextRandom_def PULSE_SPEED_def updatePulses_def pulseStep_def upd_def consume_def

lemmas frame_defs = demo_defs update_def js_rem_def

section \<open>The pulse pool is bounded\<close>

lemma recyclePulse_bounded:
  "length (pulsePool w) \<le> MAX_PULSE_COUNT \<Longrightarrow>
   length (pulsePool (recyclePulse pulse w)) \<le> MAX_PULSE_COUNT"
  by (simp add: recyclePulse_def)

lemma createPulse_bounded:
  "length (pulsePool w) \<le> MAX_PULSE_COUNT \<Longrightarrow>
   length (pulsePool (snd (createPulse src tgt spd w))) \<le> MAX_PULSE_COUNT"
  by (auto simp add: createPulse_def Let_def)

text \<open>
  Claim C9. The pool never grows beyond \<open>MAX_PULSE_COUNT\<close> = 100: both pool operations
  keep a pool of at most 100 pulses at most 100 long. \<open>recyclePulse\<close> on a full pool
  returns the world unchanged (the pulse is dropped, nothing fails), \<open>createPulse\<close> always
  returns a pulse whatever the pool holds, and when the pool is not empty the pulse it
  returns is the object instance that was last in the pool (same identity, fields
  overwritten), which leaves the pool, while no fresh identity is allocated.
\<close>

theorem pulse_pool_bounded_and_reused:
  "MAX_PULSE_COUNT = 100 \<and>
   (length (pulsePool w) \<le> MAX_PULSE_COUNT \<longrightarrow>
      length (pulsePool (recyclePulse pulse w)) \<le> MAX_PULSE_COUNT \<and>
      length (pulsePool (snd (createPulse src tgt spd w))) \<le> MAX_PULSE_COUNT) \<and>
   (length (pulsePool w) = MAX_PULSE_COUNT \<longrightarrow> recyclePulse pulse w = w) \<and>
   (length (pulsePool w) < MAX_PULSE_COUNT \<longrightarrow>
      pulsePool (recyclePulse pulse w) = pulsePool w @ [pulse]) \<and>
   (pulsePool w \<noteq> [] \<longrightarrow>
      p_ident (fst (createPulse src tgt spd w)) = p_ident (last (pulsePool w)) \<and>
      last (pulsePool w) \<in> set (pulsePool w) \<and>
      pulsePool (snd (createPulse src tgt spd w)) = butlast (pulsePool w) \<and>
      nextPulse (snd (createPulse src tgt spd w)) = nextPulse w) \<and>
   (pulsePool w = [] \<longrightarrow>
      p_ident (fst (createPulse src tgt spd w)) = nextPulse w \<and>
      nextPulse (snd (createPulse src tgt spd w)) = nextPulse w + 1) \<and>
   p_source (fst (createPulse src tgt spd w)) = src \<and>
   p_target (fst (createPulse src tgt spd w)) = tgt \<and>
   p_progress (fst (createPulse src tgt spd w)) = 0 \<and>
   p_speed (fst (createPulse src tgt spd w)) = spd"
  by (auto simp add: recyclePulse_def createPulse_def Let_def MAX_PULSE_COUNT_def)

text \<open>
  The theorem at two concrete pools: a pool holding one recycled pulse (identity 7), from
  which \<open>createPulse\<close> takes that very object, and a full pool of 100 pulses, which
  \<open>recyclePulse\<close> leaves as it is.
\<close>

theorem pulse_pool_bounded_and_reused_witness:
  "fst (createPulse 3 4 0.02
          ((initialWorld (\<lambda>i. Abs_unitreal 0))
             \<lparr>pulsePool := [\<lparr>p_ident = 7, p_source = 0, p_target = 1, p_progress = 1, p_speed = 0.01\<rparr>]\<rparr>))
     = \<lparr>p_ident = 7, p_source = 3, p_target = 4, p_progress = 0, p_speed = 0.02\<rparr> \<and>
   pulsePool (snd (createPulse 3 4 0.02
          ((initialWorld (\<lambda>i. Abs_unitreal 0))
             \<lparr>pulsePool := [\<lparr>p_ident = 7, p_source = 0, p_target = 1, p_progress = 1, p_speed = 0.01\<rparr>]\<rparr>)))
     = [] \<and>
   length (pulsePool ((initialWorld (\<lambda>i. Abs_unitreal 0))
             \<lparr>pulsePool := replicate 100 \<lparr>p_ident = 7, p_source = 0, p_target = 1, p_progress = 1, p_speed = 0.01\<rparr>\<rparr>))
     = MAX_PULSE_COUNT \<and>
   recyclePulse \<lparr>p_ident = 8, p_source = 0, p_target = 1, p_progress = 1, p_speed = 0.01\<rparr>
     ((initialWorld (\<lambda>i. Abs_unitreal 0))
        \<lparr>pulsePool := replicate 100 \<lparr>p_ident = 7, p_source = 0, p_target = 1, p_progress = 1, p_speed = 0.01\<rparr>\<rparr>)
     = (initialWorld (\<lambda>i. Abs_unitreal 0))
        \<lparr>pulsePool := replicate 100 \<lparr>p_ident = 7, p_source = 0, p_target = 1, p_progress = 1, p_speed = 0.01\<rparr>\<rparr>"
proof -
  let ?p = "\<lparr>p_ident = 7, p_source = 0, p_target = 1, p_progress = 1, p_speed = 0.01\<rparr>"
  let ?q = "\<lparr>p_ident = 8, p_source = 0, p_target = 1, p_progress = 1, p_speed = 0.01\<rparr>"
  let ?one = "(initialWorld (\<lambda>i. Abs_unitreal 0))\<lparr>pulsePool := [?p]\<rparr>"
  let ?full = "(initialWorld (\<lambda>i. Abs_unitreal 0))\<lparr>pulsePool := replicate 100 ?p\<rparr>"
  have one: "pulsePool ?one \<noteq> []" "last (pulsePool ?one) = ?p" "butlast (pulsePool ?one) = []"
    by simp_all
  have full: "length (pulsePool ?full) = MAX_PULSE_COUNT"
    by (simp add: MAX_PULSE_COUNT_def)
  have a: "fst (createPulse 3 4 0.02 ?one) = \<lparr>p_ident = 7, p_source = 3, p_target = 4, p_progress = 0, p_speed = 0.02\<rparr>"
    using pulse_pool_bounded_and_reused [of ?one ?q 3 4 "0.02"] one
    by (intro pulse.equality) simp_all
  have b: "pulsePool (snd (createPulse 3 4 0.02 ?one)) = []"
    using pulse_pool_bounded_and_reused [of ?one ?q 3 4 "0.02"] one by simp
  have c: "recyclePulse ?q ?full = ?full"
    using pulse_pool_bounded_and_reused [of ?full ?q 3 4 "0.02"] full by blast
  from a b c full show ?thesis by blast
qed

section \<open>Emission\<close>

text \<open>
  Claim C5, as the code has it. \<open>sendRandomImpulse\<close> skips emission entirely when the node
  has no connection (no draw is made) or when the first draw is at most 0.3: under a
  uniform draw it skips with probability 0.3 and goes on with probability 0.7. When it goes
  on, the second draw selects the connection at index \<open>floor(draw * length)\<close>, which is a
  valid index, each index being selected by an interval of draws of the same length. If the
  opacity of that target is at most 0.5 nothing else happens. Otherwise one pulse is pushed
  on the node's list, from this node to the target, with progress 0 and a speed
  \<open>0.002 + draw * 0.023\<close> in the band from 0.002 (included) to 0.025 (excluded), and the
  node's counter \<open>processingPulses\<close> is decremented if it is positive.
\<close>

theorem sendRandomImpulse_emission:
  "(n_connections (store w this) = [] \<longrightarrow> sendRandomImpulse this w = w) \<and>
   (n_connections (store w this) \<noteq> [] \<and> nextRandom w \<le> 0.3 \<longrightarrow>
      sendRandomImpulse this w = consume w) \<and>
   (n_connections (store w this) \<noteq> [] \<and> nextRandom w > 0.3 \<longrightarrow>
      (let conns = n_connections (store w this);
           randomIndex = nat \<lfloor>nextRandom (consume w) * real (length conns)\<rfloor>;
           tgt = conns ! randomIndex;
           speed = 0.002 + nextRandom (consume (consume w)) * PULSE_SPEED;
           pulse = fst (createPulse this tgt speed (consume (consume (consume w))));
           w' = sendRandomImpulse this w
       in randomIndex < length conns \<and>
          (\<forall>k < length conns. randomIndex = k \<longleftrightarrow>
              real k / real (length conns) \<le> nextRandom (consume w) \<and>
              nextRandom (consume w) < real (Suc k) / real (length conns)) \<and>
          (n_opacity (store w tgt) \<le> 0.5 \<longrightarrow> w' = consume (consume w)) \<and>
          (n_opacity (store w tgt) > 0.5 \<longrightarrow>
             0.002 \<le> speed \<and> speed < 0.025 \<and>
             p_source pulse = this \<and> p_target pulse = tgt \<and>
             p_progress pulse = 0 \<and> p_speed pulse = speed \<and>
             n_pulses (store w' this) = n_pulses (store w this) @ [pulse] \<and>
             n_processingPulses (store w' this) =
               (if n_processingPulses (store w this) > 0
                then n_processingPulses (store w this) - 1
                else n_processingPulses (store w this)))))"
  using speed_band [of "consume (consume w)"]
  by (auto simp add: sendRandomImpulse_def Let_def randomIndex_less randomIndex_eq
        createPulse_def split: prod.splits)

text \<open>
  The theorem at the two-node network with gate draw 0.5, index draw 0 and speed draw 0:
  the pulse from node 0 to node 1 is emitted with speed 0.002.
\<close>

theorem sendRandomImpulse_emission_witness:
  "n_connections (store (demoPair [0.9, 0, 0, 0.9, 0, 0, 0.5, 0, 0]) 0) = [1] \<and>
   nextRandom (demoPair [0.9, 0, 0, 0.9, 0, 0, 0.5, 0, 0]) = 0.5 \<and>
   n_opacity (store (demoPair [0.9, 0, 0, 0.9, 0, 0, 0.5, 0, 0]) 1) = 1 \<and>
   n_pulses (store (sendRandomImpulse 0 (demoPair [0.9, 0, 0, 0.9, 0, 0, 0.5, 0, 0])) 0) =
     [\<lparr>p_ident = 0, p_source = 0, p_target = 1, p_progress = 0, p_speed = 0.002\<rparr>] \<and>
   n_processingPulses (store (sendRandomImpulse 0 (demoPair [0.9, 0, 0, 0.9, 0, 0, 0.5, 0, 0])) 0) = 0"
  using sendRandomImpulse_emission [of "demoPair [0.9, 0, 0, 0.9, 0, 0, 0.5, 0, 0]" 0]
  by (simp add: demo_defs cong: let_weak_cong prod.case_cong_weak)

text \<open>
  The claim as stated (emission skipped with probability 0.7) fails: with the gate draws
  0.31, 0.5, 0.69 and 0.99 the two-node network emits the pulse, and it skips only with
  the gate draws 0.3 and 0, that is on the interval from 0 to 0.3.
\<close>

theorem sendRandomImpulse_skip_counterexample:
  "n_pulses (store (sendRandomImpulse 0 (demoPair [0.9, 0, 0, 0.9, 0, 0, 0.31, 0, 0])) 0) =
     [\<lparr>p_ident = 0, p_source = 0, p_target = 1, p_progress = 0, p_speed = 0.002\<rparr>] \<and>
   n_pulses (store (sendRandomImpulse 0 (demoPair [0.9, 0, 0, 0.9, 0, 0, 0.5, 0, 0])) 0) =
     [\<lparr>p_ident = 0, p_source = 0, p_target = 1, p_progress = 0, p_speed = 0.002\<rparr>] \<and>
   n_pulses (store (sendRandomImpulse 0 (demoPair [0.9, 0, 0, 0.9, 0, 0, 0.69, 0, 0])) 0) =
     [\<lparr>p_ident = 0, p_source = 0, p_target = 1, p_progress = 0, p_speed = 0.002\<rparr>] \<and>
   n_pulses (store (sendRandomImpulse 0 (demoPair [0.9, 0, 0, 0.9, 0, 0, 0.99, 0, 0])) 0) =
     [\<lparr>p_ident = 0, p_source = 0, p_target = 1, p_progress = 0, p_speed = 0.002\<rparr>] \<and>
   n_pulses (store (sendRandomImpulse 0 (demoPair [0.9, 0, 0, 0.9, 0, 0, 0.3, 0, 0])) 0) = [] \<and>
   n_pulses (store (sendRandomImpulse 0 (demoPair [0.9, 0, 0, 0.9, 0, 0, 0, 0, 0])) 0) = []"
  by (simp add: demo_defs cong: let_weak_cong prod.case_cong_weak)

section \<open>Opacity\<close>

lemma recyclePulse_store [simp]: "store (recyclePulse p w) = store w"
  by (simp add: recyclePulse_def)

lemma sendRandomImpulse_opacity [simp]:
  "n_opacity (store (sendRandomImpulse t w) r) = n_opacity (store w r)"
  "n_targetOpacity (store (sendRandomImpulse t w) r) = n_targetOpacity (store w r)"
  by (simp_all add: sendRandomImpulse_def Let_def createPulse_def split: prod.splits)

lemma sendRandomImpulse_opacityInv [simp]:
  "opacityInv (store (sendRandomImpulse t w) r) = opacityInv (store w r)"
  by (simp add: opacityInv_def)

lemma pulseStep_opacityInv:
  "opacityInv (store w r) \<Longrightarrow> opacityInv (store (pulseStep this dt i w) r)"
  by (auto simp add: pulseStep_def Let_def opacityInv_def)

lemma updatePulsesFrom_opacityInv:
  "opacityInv (store w r) \<Longrightarrow> opacityInv (store (updatePulsesFrom this dt i w) r)"
  by (induction i arbitrary: w) (simp_all add: pulseStep_opacityInv)

lemma updatePulses_opacityInv:
  "opacityInv (store w r) \<Longrightarrow> opacityInv (store (updatePulses this dt w) r)"
  by (simp add: updatePulses_def updatePulsesFrom_opacityInv)

lemma relax_opacityInv:
  "opacityInv n \<Longrightarrow>
   opacityInv (if \<bar>n_opacity n - n_targetOpacity n\<bar> > 0.01
               then n\<lparr>n_opacity := n_opacity n + (n_targetOpacity n - n_opacity n) * 0.05\<rparr>
               else n\<lparr>n_opacity := n_targetOpacity n\<rparr>)"
  by (auto simp add: opacityInv_def field_simps)

lemma upd_opacityInv:
  "(\<And>n. opacityInv n \<Longrightarrow> opacityInv (f n)) \<Longrightarrow> opacityInv (store w r) \<Longrightarrow>
   opacityInv (store (upd t f w) r)"
  by auto

lemma if_opacityInv:
  "opacityInv (store a r) \<Longrightarrow> opacityInv (store b r) \<Longrightarrow>
   opacityInv (store (if c then a else b) r)"
  by simp

lemma consume_opacityInv:
  "opacityInv (store w r) \<Longrightarrow> opacityInv (store (consume w) r)"
  by simp

lemma send_opacityInv:
  "opacityInv (store w r) \<Longrightarrow> opacityInv (store (sendRandomImpulse t w) r)"
  by simp

lemma update_opacityInv:
  assumes "opacityInv (store w r)"
  shows "opacityInv (store (update this time dt w) r)"
  unfolding update_def Let_def
  apply (intro updatePulses_opacityInv if_opacityInv consume_opacityInv send_opacityInv upd_opacityInv assms)
  apply (erule relax_opacityInv | simp add: opacityInv_def)+
  done

lemma newNode_opacityInv:
  "opacityInv (store (snd (newNode x y radius type w)) (fst (newNode x y radius type w)))"
  by (simp add: newNode_def Let_def opacityInv_def)

lemma pulseStep_arrival_opacity:
  "1 \<le> p_progress (advance dt (n_pulses (store w this) ! i)) \<Longrightarrow>
   n_opacity (store (pulseStep this dt i w) (p_target (n_pulses (store w this) ! i))) = 1 \<and>
   n_targetOpacity (store (pulseStep this dt i w) (p_target (n_pulses (store w this) ! i))) = 1"
  by (simp add: pulseStep_def Let_def advance_def)

text \<open>
  Claim C10. A node satisfies the opacity invariant (opacity between 0.3 and 1, target
  opacity exactly 0.3 or 1) when the constructor returns it; every node that satisfies it
  before a call of \<open>update\<close> on any node satisfies it afterwards (the relaxation step of
  the updated node, and the arrivals of its pulses at other nodes, included); and a pulse
  that arrives sets the opacity and the target opacity of its target to 1. No other
  function of the program writes the two fields.
\<close>

theorem opacity_invariant:
  "opacityInv (store (snd (newNode x y radius type w0)) (fst (newNode x y radius type w0))) \<and>
   (opacityInv (store w r) \<longrightarrow> opacityInv (store (update this time deltaTime w) r)) \<and>
   (1 \<le> p_progress (advance deltaTime (n_pulses (store w this) ! i)) \<longrightarrow>
      n_opacity (store (pulseStep this deltaTime i w) (p_target (n_pulses (store w this) ! i))) = 1 \<and>
      n_targetOpacity (store (pulseStep this deltaTime i w) (p_target (n_pulses (store w this) ! i))) = 1)"
  using newNode_opacityInv update_opacityInv pulseStep_arrival_opacity by blast

text \<open>
  The theorem on concrete worlds. A node built with the draw 0.4 starts dormant, with
  opacity 0.3. On the two-node network node 0 emits a pulse towards node 1 while both have
  opacity 1; node 1 is then updated at time 12000, in the dormant part of its cycle: its
  target opacity becomes 0.3 and its opacity relaxes from 1 to 0.965, inside the range.
  Node 0 is then updated with a frame of 10000 ms, in which the pulse arrives (its progress
  passes 1.1): the arrival snaps the opacity of node 1 from 0.965 to 1 and its target
  opacity from 0.3 to 1.
\<close>

theorem opacity_invariant_witness:
  "n_opacity (store (snd (newNode 30 30 5 ''destination'' (initialWorld (draws [0.4, 0, 0])))) 0) = 0.3 \<and>
   opacityInv (store (snd (newNode 30 30 5 ''destination'' (initialWorld (draws [0.4, 0, 0])))) 0) \<and>
   n_opacity (store (sendRandomImpulse 0 (demoPair [0.9, 0, 0, 0.9, 0, 0, 0.5, 0, 0])) 1) = 1 \<and>
   0.96 < n_opacity (store (update 1 12000 16.667
             (sendRandomImpulse 0 (demoPair [0.9, 0, 0, 0.9, 0, 0, 0.5, 0, 0]))) 1) \<and>
   n_opacity (store (update 1 12000 16.667
             (sendRandomImpulse 0 (demoPair [0.9, 0, 0, 0.9, 0, 0, 0.5, 0, 0]))) 1) < 0.97 \<and>
   n_targetOpacity (store (update 1 12000 16.667
             (sendRandomImpulse 0 (demoPair [0.9, 0, 0, 0.9, 0, 0, 0.5, 0, 0]))) 1) = 0.3 \<and>
   opacityInv (store (update 1 12000 16.667
             (sendRandomImpulse 0 (demoPair [0.9, 0, 0, 0.9, 0, 0, 0.5, 0, 0]))) 1) \<and>
   1.1 < p_progress (advance 10000 (n_pulses (store (update 1 12000 16.667
             (sendRandomImpulse 0 (demoPair [0.9, 0, 0, 0.9, 0, 0, 0.5, 0, 0]))) 0) ! 0)) \<and>
   n_opacity (store (pulseStep 0 10000 0 (update 1 12000 16.667
             (sendRandomImpulse 0 (demoPair [0.9, 0, 0, 0.9, 0, 0, 0.5, 0, 0])))) 1) = 1 \<and>
   n_targetOpacity (store (pulseStep 0 10000 0 (update 1 12000 16.667
             (sendRandomImpulse 0 (demoPair [0.9, 0, 0, 0.9, 0, 0, 0.5, 0, 0])))) 1) = 1 \<and>
   opacityInv (store (update 0 12000 10000 (update 1 12000 16.667
             (sendRandomImpulse 0 (demoPair [0.9, 0, 0, 0.9, 0, 0, 0.5, 0, 0])))) 1) \<and>
   n_opacity (store (update 0 12000 10000 (update 1 12000 16.667
             (sendRandomImpulse 0 (demoPair [0.9, 0, 0, 0.9, 0, 0, 0.5, 0, 0])))) 1) = 1"
proof -
  let ?N = "newNode 30 30 5 ''destination'' (initialWorld (draws [0.4, 0, 0]))"
  let ?W = "sendRandomImpulse 0 (demoPair [0.9, 0, 0, 0.9, 0, 0, 0.5, 0, 0])"
  let ?W1 = "update 1 12000 16.667 ?W"
  let ?W2 = "update 0 12000 10000 ?W1"
  have n: "fst ?N = 0" "n_opacity (store (snd ?N) 0) = 0.3"
    by (simp_all add: demo_defs cong: let_weak_cong prod.case_cong_weak)
  have n': "opacityInv (store (snd ?N) 0)"
    using opacity_invariant [where x = 30 and y = 30 and radius = 5 and type = "''destination''"
        and ?w0.0 = "initialWorld (draws [0.4, 0, 0])"] n(1) by simp
  have a: "n_opacity (store ?W 1) = 1" "opacityInv (store ?W 1)"
    by (simp_all add: demo_defs opacityInv_def cong: let_weak_cong prod.case_cong_weak)
  have b: "n_opacity (store ?W1 1) = 0.965" "n_targetOpacity (store ?W1 1) = 0.3"
    "n_pulses (store ?W1 0) ! 0 =
       \<lparr>p_ident = 0, p_source = 0, p_target = 1, p_progress = 0, p_speed = 0.002\<rparr>"
    by (simp_all add: frame_defs cong: let_weak_cong prod.case_cong_weak)
  have b': "opacityInv (store ?W1 1)"
    using opacity_invariant [where w = ?W and r = 1 and this = 1 and time = 12000
        and deltaTime = "16.667"] a(2) by blast
  have c: "1.1 < p_progress (advance 10000 (n_pulses (store ?W1 0) ! 0))"
    "p_target (n_pulses (store ?W1 0) ! 0) = 1"
    unfolding b(3) by (simp_all add: advance_def)
  have d: "n_opacity (store (pulseStep 0 10000 0 ?W1) 1) = 1"
    "n_targetOpacity (store (pulseStep 0 10000 0 ?W1) 1) = 1"
    using opacity_invariant [where w = ?W1 and this = 0 and deltaTime = 10000 and i = 0] c
    by simp_all
  have e: "opacityInv (store ?W2 1)"
    using opacity_invariant [where w = ?W1 and r = 1 and this = 0 and time = 12000
        and deltaTime = 10000] b' by blast
  have f: "n_opacity (store ?W2 1) = 1"
    by (simp add: frame_defs cong: let_weak_cong prod.case_cong_weak)
  from n n' a b b' c d e f show ?thesis by simp
qed

section \<open>Pulse progress and retirement\<close>

lemma sendRandomImpulse_pulses:
  "\<exists>extra. n_pulses (store (sendRandomImpulse t w) r) = n_pulses (store w r) @ extra \<and>
           (\<forall>q \<in> set extra. p_progress q = 0) \<and> (r \<noteq> t \<longrightarrow> extra = [])"
  by (auto simp add: sendRandomImpulse_def Let_def createPulse_def split: prod.splits)

lemma sendRandomImpulse_type [simp]:
  "n_type (store (sendRandomImpulse t w) r) = n_type (store w r)"
  by (simp add: sendRandomImpulse_def Let_def createPulse_def split: prod.splits)

lemma sendRandomImpulse_counter_other:
  "r \<noteq> t \<Longrightarrow> n_processingPulses (store (sendRandomImpulse t w) r) = n_processingPulses (store w r)"
  by (simp add: sendRandomImpulse_def Let_def createPulse_def split: prod.splits)

lemma sendRandomImpulse_counter_self:
  "n_processingPulses (store (sendRandomImpulse t w) t) = n_processingPulses (store w t) \<or>
   (0 < n_processingPulses (store w t) \<and>
    n_processingPulses (store (sendRandomImpulse t w) t) = n_processingPulses (store w t) - 1)"
  by (simp add: sendRandomImpulse_def Let_def createPulse_def split: prod.splits)

lemma pulseStep_type [simp]:
  "n_type (store (pulseStep this dt i w) r) = n_type (store w r)"
  by (simp add: pulseStep_def Let_def)

lemma forward_pulses:
  "\<exists>extra. n_pulses (store (if c1 then (if c2 then sendRandomImpulse t (consume w) else consume w) else w) r)
             = n_pulses (store w r) @ extra \<and>
           (\<forall>q \<in> set extra. p_progress q = 0) \<and> (r \<noteq> t \<longrightarrow> extra = [])"
  using sendRandomImpulse_pulses [of t "consume w" r] by (cases c1; cases c2; simp)

lemma pulseStep_pulses:
  assumes "i < length (n_pulses (store w this))"
  shows "\<exists>extra. n_pulses (store (pulseStep this dt i w) this) =
            take i (n_pulses (store w this)) @
            (if p_progress (advance dt (n_pulses (store w this) ! i)) < 1
             then [advance dt (n_pulses (store w this) ! i)] else []) @
            drop (Suc i) (n_pulses (store w this)) @ extra \<and>
            (\<forall>q \<in> set extra. p_progress q = 0)"
proof (cases rule: case_split [of "p_progress (advance dt (n_pulses (store w this) ! i)) < 1"])
  case True
  then show ?thesis
    using assms by (simp add: pulseStep_def Let_def advance_def upd_conv_take_nth_drop)
next
  case False
  let ?L = "n_pulses (store w this)"
  let ?a = "advance dt (?L ! i)"
  let ?t = "p_target (?L ! i)"
  define w5 where "w5 =
     upd ?t (\<lambda>n. n\<lparr>n_targetOpacity := n_opacity n\<rparr>)
      (upd ?t (\<lambda>n. n\<lparr>n_opacity := (if n_active n then 1 else 0.3)\<rparr>)
        (upd ?t (\<lambda>n. n\<lparr>n_active := True\<rparr>)
          (upd ?t (\<lambda>n. n\<lparr>n_processingPulses := n_processingPulses n + 1\<rparr>)
            (upd this (\<lambda>n. n\<lparr>n_pulses := (n_pulses n)[i := ?a]\<rparr>) w))))"
  have L5: "n_pulses (store w5 this) = ?L[i := ?a]"
    by (simp add: w5_def)
  define w6 where "w6 = (if n_type (store w5 ?t) = ''process''
                               then (if nextRandom w5 > 0.7
                                     then sendRandomImpulse ?t (consume w5)
                                     else consume w5)
                               else w5)"
  obtain extra where e: "n_pulses (store w6 this) = ?L[i := ?a] @ extra" "\<forall>q \<in> set extra. p_progress q = 0"
    using forward_pulses [of "n_type (store w5 ?t) = ''process''" "nextRandom w5 > 0.7" ?t w5 this]
    unfolding w6_def L5 by blast
  have res: "pulseStep this dt i w =
     upd this (\<lambda>n. n\<lparr>n_pulses := take i (n_pulses n) @ drop (Suc i) (n_pulses n)\<rparr>) (recyclePulse ?a w6)"
    using False by (simp add: pulseStep_def Let_def advance_def w6_def w5_def)
  have "n_pulses (store (pulseStep this dt i w) this) = take i ?L @ drop (Suc i) ?L @ extra"
    using assms e by (simp add: res)
  with False e(2) show ?thesis by auto
qed

lemma pulseStep_take:
  assumes "i < length (n_pulses (store w this))"
  shows "take i (n_pulses (store (pulseStep this dt i w) this)) = take i (n_pulses (store w this))"
    and "i \<le> length (n_pulses (store (pulseStep this dt i w) this))"
  using pulseStep_pulses [OF assms, of dt] assms by auto

lemma updatePulsesFrom_pulses:
  "i \<le> length (n_pulses (store w this)) \<Longrightarrow>
   \<exists>extra. n_pulses (store (updatePulsesFrom this dt i w) this) =
      filter (\<lambda>p. p_progress p < 1) (map (advance dt) (take i (n_pulses (store w this)))) @
      drop i (n_pulses (store w this)) @ extra \<and>
      (\<forall>q \<in> set extra. p_progress q = 0)"
proof (induction i arbitrary: w)
  case 0
  then show ?case by simp
next
  case (Suc i)
  let ?L = "n_pulses (store w this)"
  let ?w' = "pulseStep this dt i w"
  let ?L' = "n_pulses (store ?w' this)"
  let ?mid = "if p_progress (advance dt (?L ! i)) < 1 then [advance dt (?L ! i)] else []"
  from Suc.prems have i: "i < length ?L" by simp
  obtain e0 where e0: "?L' = take i ?L @ ?mid @ drop (Suc i) ?L @ e0" "\<forall>q \<in> set e0. p_progress q = 0"
    using pulseStep_pulses [OF i, of dt] by blast
  have len: "i \<le> length ?L'" using pulseStep_take(2) [OF i] .
  obtain e1 where e1: "n_pulses (store (updatePulsesFrom this dt i ?w') this) =
      filter (\<lambda>p. p_progress p < 1) (map (advance dt) (take i ?L')) @ drop i ?L' @ e1"
      "\<forall>q \<in> set e1. p_progress q = 0"
    using Suc.IH [OF len] by blast
  have tk: "take i ?L' = take i ?L" using pulseStep_take(1) [OF i] .
  have dr: "drop i ?L' = ?mid @ drop (Suc i) ?L @ e0"
    using e0(1) i by simp
  have fl: "filter (\<lambda>p. p_progress p < 1) (map (advance dt) (take (Suc i) ?L)) =
            filter (\<lambda>p. p_progress p < 1) (map (advance dt) (take i ?L)) @ ?mid"
    using i by (simp add: take_Suc_conv_app_nth)
  have "n_pulses (store (updatePulsesFrom this dt (Suc i) w) this) =
      filter (\<lambda>p. p_progress p < 1) (map (advance dt) (take (Suc i) ?L)) @ drop (Suc i) ?L @ (e0 @ e1)"
    using e1(1) by (simp only: updatePulsesFrom.simps tk dr fl append_assoc)
  moreover have "\<forall>q \<in> set (e0 @ e1). p_progress q = 0" using e0(2) e1(2) by auto
  ultimately show ?case by blast
qed

lemma forward_counter:
  "(r \<noteq> t \<longrightarrow> n_processingPulses (store (if c1 then (if c2 then sendRandomImpulse t (consume w) else consume w) else w) r)
             = n_processingPulses (store w r)) \<and>
   (\<not> c1 \<longrightarrow> n_processingPulses (store (if c1 then (if c2 then sendRandomImpulse t (consume w) else consume w) else w) r)
             = n_processingPulses (store w r)) \<and>
   (n_processingPulses (store (if c1 then (if c2 then sendRandomImpulse t (consume w) else consume w) else w) t)
             = n_processingPulses (store w t) \<or>
    (0 < n_processingPulses (store w t) \<and>
     n_processingPulses (store (if c1 then (if c2 then sendRandomImpulse t (consume w) else consume w) else w) t)
             = n_processingPulses (store w t) - 1))"
  using sendRandomImpulse_counter_self [of t "consume w"] sendRandomImpulse_counter_other [of r t "consume w"]
  by (cases c1; cases c2; simp)

lemma pulseStep_counter:
  assumes "i < length (n_pulses (store w this))"
  shows "(if 1 \<le> p_progress (advance dt (n_pulses (store w this) ! i)) \<and>
             p_target (n_pulses (store w this) ! i) = t
          then n_processingPulses (store w t) \<le> n_processingPulses (store (pulseStep this dt i w) t) \<and>
               n_processingPulses (store (pulseStep this dt i w) t) \<le> n_processingPulses (store w t) + 1 \<and>
               (n_type (store w t) \<noteq> ''process'' \<longrightarrow>
                  n_processingPulses (store (pulseStep this dt i w) t) = n_processingPulses (store w t) + 1)
          else n_processingPulses (store (pulseStep this dt i w) t) = n_processingPulses (store w t))"
proof (cases rule: case_split [of "p_progress (advance dt (n_pulses (store w this) ! i)) < 1"])
  case True
  then show ?thesis
    by (simp add: pulseStep_def Let_def advance_def)
next
  case False
  let ?L = "n_pulses (store w this)"
  let ?a = "advance dt (?L ! i)"
  let ?t = "p_target (?L ! i)"
  define w5 where "w5 =
     upd ?t (\<lambda>n. n\<lparr>n_targetOpacity := n_opacity n\<rparr>)
      (upd ?t (\<lambda>n. n\<lparr>n_opacity := (if n_active n then 1 else 0.3)\<rparr>)
        (upd ?t (\<lambda>n. n\<lparr>n_active := True\<rparr>)
          (upd ?t (\<lambda>n. n\<lparr>n_processingPulses := n_processingPulses n + 1\<rparr>)
            (upd this (\<lambda>n. n\<lparr>n_pulses := (n_pulses n)[i := ?a]\<rparr>) w))))"
  have c5: "n_processingPulses (store w5 t) = (if t = ?t then n_processingPulses (store w t) + 1 else n_processingPulses (store w t))"
    by (simp add: w5_def)
  have t5: "n_type (store w5 r) = n_type (store w r)" for r
    by (simp add: w5_def)
  define w6 where "w6 = (if n_type (store w5 ?t) = ''process''
                               then (if nextRandom w5 > 0.7
                                     then sendRandomImpulse ?t (consume w5)
                                     else consume w5)
                               else w5)"
  have res: "pulseStep this dt i w =
     upd this (\<lambda>n. n\<lparr>n_pulses := take i (n_pulses n) @ drop (Suc i) (n_pulses n)\<rparr>) (recyclePulse ?a w6)"
    using False by (simp add: pulseStep_def Let_def advance_def w6_def w5_def)
  have c6: "n_processingPulses (store (pulseStep this dt i w) t) = n_processingPulses (store w6 t)"
    by (simp add: res)
  show ?thesis
    using forward_counter [of t ?t "n_type (store w5 ?t) = ''process''" "nextRandom w5 > 0.7" w5]
      forward_counter [of ?t ?t "n_type (store w5 ?t) = ''process''" "nextRandom w5 > 0.7" w5]
      False c5 t5
    unfolding c6 w6_def [symmetric]
    by (cases rule: case_split [of "t = ?t"]) auto
qed

lemma arrivals_take_Suc:
  "i < length L \<Longrightarrow>
   arrivals dt t (take (Suc i) L) =
   arrivals dt t (take i L) +
     (if 1 \<le> p_progress (advance dt (L ! i)) \<and> p_target (L ! i) = t then 1 else 0)"
  by (auto simp add: arrivals_def take_Suc_conv_app_nth)

lemma updatePulsesFrom_type [simp]:
  "n_type (store (updatePulsesFrom this dt i w) r) = n_type (store w r)"
  by (induction i arbitrary: w) simp_all

lemma updatePulsesFrom_counter:
  "i \<le> length (n_pulses (store w this)) \<Longrightarrow>
   n_processingPulses (store w t) \<le> n_processingPulses (store (updatePulsesFrom this dt i w) t) \<and>
   n_processingPulses (store (updatePulsesFrom this dt i w) t) \<le>
     n_processingPulses (store w t) + int (arrivals dt t (take i (n_pulses (store w this)))) \<and>
   (n_type (store w t) \<noteq> ''process'' \<longrightarrow>
      n_processingPulses (store (updatePulsesFrom this dt i w) t) =
      n_processingPulses (store w t) + int (arrivals dt t (take i (n_pulses (store w this)))))"
proof (induction i arbitrary: w)
  case 0
  then show ?case by (simp add: arrivals_def)
next
  case (Suc i)
  let ?L = "n_pulses (store w this)"
  let ?w' = "pulseStep this dt i w"
  from Suc.prems have i: "i < length ?L" by simp
  have tk: "take i (n_pulses (store ?w' this)) = take i ?L" using pulseStep_take(1) [OF i] .
  have len: "i \<le> length (n_pulses (store ?w' this))" using pulseStep_take(2) [OF i] .
  note ih = Suc.IH [OF len, unfolded tk pulseStep_type]
  note st = pulseStep_counter [OF i, of dt t]
  show ?case
  proof (cases rule: case_split [of "1 \<le> p_progress (advance dt (?L ! i)) \<and> p_target (?L ! i) = t"])
    case True
    then show ?thesis
      using ih st by (auto simp add: arrivals_take_Suc [OF i])
  next
    case False
    then show ?thesis
      using ih st by (auto simp add: arrivals_take_Suc [OF i])
  qed
qed

lemma sendRandomImpulse_counter_exact:
  "n_processingPulses (store (sendRandomImpulse t v) t) =
     n_processingPulses (store v t) -
     (if n_connections (store v t) \<noteq> [] \<and> nextRandom v > 0.3 \<and>
         n_opacity (store v (n_connections (store v t) !
            nat \<lfloor>nextRandom (consume v) * real (length (n_connections (store v t)))\<rfloor>)) > 0.5 \<and>
         0 < n_processingPulses (store v t)
      then 1 else 0)"
  by (simp add: sendRandomImpulse_def Let_def createPulse_def split: prod.splits)

lemma pulseStep_counter_exact:
  assumes "1 \<le> p_progress (advance dt (n_pulses (store w this) ! i))"
  shows "n_processingPulses (store (pulseStep this dt i w) (p_target (n_pulses (store w this) ! i))) =
     n_processingPulses (store w (p_target (n_pulses (store w this) ! i))) + 1 -
     (if n_type (store w (p_target (n_pulses (store w this) ! i))) = ''process'' \<and>
         nextRandom w > 0.7 \<and> forwardEmits (p_target (n_pulses (store w this) ! i)) w \<and>
         0 < n_processingPulses (store w (p_target (n_pulses (store w this) ! i))) + 1
      then 1 else 0)"
proof -
  let ?L = "n_pulses (store w this)"
  let ?a = "advance dt (?L ! i)"
  let ?t = "p_target (?L ! i)"
  define w5 where "w5 =
     upd ?t (\<lambda>n. n\<lparr>n_targetOpacity := n_opacity n\<rparr>)
      (upd ?t (\<lambda>n. n\<lparr>n_opacity := (if n_active n then 1 else 0.3)\<rparr>)
        (upd ?t (\<lambda>n. n\<lparr>n_active := True\<rparr>)
          (upd ?t (\<lambda>n. n\<lparr>n_processingPulses := n_processingPulses n + 1\<rparr>)
            (upd this (\<lambda>n. n\<lparr>n_pulses := (n_pulses n)[i := ?a]\<rparr>) w))))"
  have c5: "n_processingPulses (store w5 ?t) = n_processingPulses (store w ?t) + 1"
    by (simp add: w5_def)
  have t5: "n_type (store w5 ?t) = n_type (store w ?t)"
    by (simp add: w5_def)
  have k5: "n_connections (store w5 ?t) = n_connections (store w ?t)"
    by (simp add: w5_def)
  have o5: "n_opacity (store w5 r) = (if r = ?t then 1 else n_opacity (store w r))" for r
    by (simp add: w5_def)
  have r5: "nextRandom w5 = nextRandom w" "nextRandom (consume w5) = nextRandom (consume w)"
    "nextRandom (consume (consume w5)) = nextRandom (consume (consume w))"
    by (simp_all add: w5_def nextRandom_def)
  define w6 where "w6 = (if n_type (store w5 ?t) = ''process''
                               then (if nextRandom w5 > 0.7
                                     then sendRandomImpulse ?t (consume w5)
                                     else consume w5)
                               else w5)"
  have res: "pulseStep this dt i w =
     upd this (\<lambda>n. n\<lparr>n_pulses := take i (n_pulses n) @ drop (Suc i) (n_pulses n)\<rparr>) (recyclePulse ?a w6)"
    using assms by (simp add: pulseStep_def Let_def advance_def w6_def w5_def)
  have c6: "n_processingPulses (store (pulseStep this dt i w) ?t) = n_processingPulses (store w6 ?t)"
    by (simp add: res)
  have em: "(n_connections (store (consume w5) ?t) \<noteq> [] \<and> nextRandom (consume w5) > 0.3 \<and>
         n_opacity (store (consume w5) (n_connections (store (consume w5) ?t) !
            nat \<lfloor>nextRandom (consume (consume w5)) * real (length (n_connections (store (consume w5) ?t)))\<rfloor>)) > 0.5)
        = forwardEmits ?t w"
    by (auto simp add: forwardEmits_def Let_def k5 o5 r5)
  have s6: "n_processingPulses (store (sendRandomImpulse ?t (consume w5)) ?t) =
      n_processingPulses (store w ?t) + 1 -
      (if forwardEmits ?t w \<and> 0 < n_processingPulses (store w ?t) + 1 then 1 else 0)"
    unfolding sendRandomImpulse_counter_exact [of ?t "consume w5"] using em c5 by auto
  show ?thesis
    unfolding c6 w6_def t5 r5 using s6 c5 by auto
qed

lemma pulseStep_counter_other:
  "r \<noteq> p_target (n_pulses (store w this) ! i) \<Longrightarrow>
   n_processingPulses (store (pulseStep this dt i w) r) = n_processingPulses (store w r)"
  by (simp add: pulseStep_def Let_def sendRandomImpulse_counter_other)

lemma pulseStep_counter_stay:
  "p_progress (advance dt (n_pulses (store w this) ! i)) < 1 \<Longrightarrow>
   n_processingPulses (store (pulseStep this dt i w) r) = n_processingPulses (store w r)"
  by (simp add: pulseStep_def Let_def advance_def)

lemma updatePulses_single:
  "length (n_pulses (store w this)) = 1 \<Longrightarrow> updatePulses this dt w = pulseStep this dt 0 w"
  by (simp add: updatePulses_def)


lemma updatePulsesFrom_fold:
  "updatePulsesFrom this dt i w = fold (pulseStep this dt) (rev [0..<i]) w"
  by (induction i arbitrary: w) simp_all

text \<open>
  Claim C4, as the code has it. One call of \<open>updatePulses\<close> on a node advances each of its
  pulses by \<open>speed * deltaTime / 16.667\<close>; the pulses that stay below 1 are kept in order
  with their new progress, every pulse that reaches 1 is removed in that same call, and
  the only other pulses on the list afterwards are new ones with progress 0 (emitted by a
  forward of this very node, if one of its pulses arrived at itself). With a positive speed
  and a non-negative elapsed time progress does not decrease, and every pulse on the list
  after the call has progress below 1, and at least 0 if it was so before. For any node
  \<open>t\<close>, its counter \<open>processingPulses\<close> does not decrease and grows by at most the number
  of pulses that arrive at \<open>t\<close> in the call; it grows by exactly that number (by exactly 1
  for one arrival) when \<open>t\<close> is not of type "process".

  The call is the pulse step applied at each index from the last down to 0, and the step
  of a pulse that arrives is exact: it leaves the target's counter at the old value plus 1,
  except when the target is of type "process", the forward draw exceeds 0.7 and the
  forward emits (\<open>forwardEmits\<close>), in which case the emission decrements the counter again
  (it is positive after the increment) and the step leaves it at the old value. The step
  changes no other node's counter, and the step of a pulse that stays below 1 changes no
  counter at all.
\<close>

theorem updatePulses_progress:
  "(\<exists>extra.
      n_pulses (store (updatePulses this deltaTime w) this) =
        filter (\<lambda>p. p_progress p < 1) (map (advance deltaTime) (n_pulses (store w this))) @ extra \<and>
      (\<forall>q \<in> set extra. p_progress q = 0)) \<and>
   (0 \<le> deltaTime \<longrightarrow>
      (\<forall>p \<in> set (n_pulses (store w this)). 0 < p_speed p \<longrightarrow>
          p_progress p \<le> p_progress (advance deltaTime p))) \<and>
   (\<forall>q \<in> set (n_pulses (store (updatePulses this deltaTime w) this)). p_progress q < 1) \<and>
   (0 \<le> deltaTime \<and> (\<forall>p \<in> set (n_pulses (store w this)). 0 < p_speed p \<and> 0 \<le> p_progress p) \<longrightarrow>
      (\<forall>q \<in> set (n_pulses (store (updatePulses this deltaTime w) this)). 0 \<le> p_progress q)) \<and>
   n_processingPulses (store w t) \<le> n_processingPulses (store (updatePulses this deltaTime w) t) \<and>
   n_processingPulses (store (updatePulses this deltaTime w) t) \<le>
     n_processingPulses (store w t) + int (arrivals deltaTime t (n_pulses (store w this))) \<and>
   (n_type (store w t) \<noteq> ''process'' \<longrightarrow>
      n_processingPulses (store (updatePulses this deltaTime w) t) =
      n_processingPulses (store w t) + int (arrivals deltaTime t (n_pulses (store w this)))) \<and>
   updatePulses this deltaTime w =
     fold (pulseStep this deltaTime) (rev [0..<length (n_pulses (store w this))]) w \<and>
   (1 \<le> p_progress (advance deltaTime (n_pulses (store w this) ! i)) \<longrightarrow>
      n_processingPulses (store (pulseStep this deltaTime i w) (p_target (n_pulses (store w this) ! i))) =
        n_processingPulses (store w (p_target (n_pulses (store w this) ! i))) + 1 -
        (if n_type (store w (p_target (n_pulses (store w this) ! i))) = ''process'' \<and>
            nextRandom w > 0.7 \<and> forwardEmits (p_target (n_pulses (store w this) ! i)) w \<and>
            0 < n_processingPulses (store w (p_target (n_pulses (store w this) ! i))) + 1
         then 1 else 0)) \<and>
   (r \<noteq> p_target (n_pulses (store w this) ! i) \<or>
    p_progress (advance deltaTime (n_pulses (store w this) ! i)) < 1 \<longrightarrow>
      n_processingPulses (store (pulseStep this deltaTime i w) r) = n_processingPulses (store w r))"
proof -
  let ?L = "n_pulses (store w this)"
  let ?w' = "updatePulses this deltaTime w"
  obtain extra where e: "n_pulses (store ?w' this) =
        filter (\<lambda>p. p_progress p < 1) (map (advance deltaTime) ?L) @ extra"
      "\<forall>q \<in> set extra. p_progress q = 0"
    using updatePulsesFrom_pulses [of "length ?L" w this deltaTime]
    by (auto simp add: updatePulses_def)
  have mono: "0 \<le> deltaTime \<Longrightarrow> 0 < p_speed p \<Longrightarrow> p_progress p \<le> p_progress (advance deltaTime p)" for p
    by (simp add: advance_def)
  have lt: "\<forall>q \<in> set (n_pulses (store ?w' this)). p_progress q < 1"
    using e by auto
  have ge: "\<forall>q \<in> set (n_pulses (store ?w' this)). 0 \<le> p_progress q"
    if "0 \<le> deltaTime" "\<forall>p \<in> set ?L. 0 < p_speed p \<and> 0 \<le> p_progress p"
  proof
    fix q assume "q \<in> set (n_pulses (store ?w' this))"
    then consider (old) p where "p \<in> set ?L" "q = advance deltaTime p" | (new) "q \<in> set extra"
      using e(1) by auto
    then show "0 \<le> p_progress q"
    proof cases
      case old
      then show ?thesis using that mono [of p] by force
    next
      case new
      then show ?thesis using e(2) by simp
    qed
  qed
  have cnt: "n_processingPulses (store w t) \<le> n_processingPulses (store ?w' t) \<and>
     n_processingPulses (store ?w' t) \<le> n_processingPulses (store w t) + int (arrivals deltaTime t ?L) \<and>
     (n_type (store w t) \<noteq> ''process'' \<longrightarrow>
        n_processingPulses (store ?w' t) = n_processingPulses (store w t) + int (arrivals deltaTime t ?L))"
    using updatePulsesFrom_counter [of "length ?L" w this t deltaTime]
    by (simp add: updatePulses_def)
  have it: "updatePulses this deltaTime w = fold (pulseStep this deltaTime) (rev [0..<length ?L]) w"
    by (simp add: updatePulses_def updatePulsesFrom_fold)
  note ex = pulseStep_counter_exact [of deltaTime w this i]
  have fr: "r \<noteq> p_target (?L ! i) \<or> p_progress (advance deltaTime (?L ! i)) < 1 \<longrightarrow>
      n_processingPulses (store (pulseStep this deltaTime i w) r) = n_processingPulses (store w r)"
    using pulseStep_counter_other [of r w this i deltaTime] pulseStep_counter_stay [of deltaTime w this i r]
    by blast
  from e mono lt ge cnt it ex fr show ?thesis by blast
qed

text \<open>
  The theorem on concrete worlds, with a frame of 10000 ms, in which a pulse of speed
  0.002 goes from progress 0 to about 1.2. On the two-node network the pulse from node 0
  to node 1 (a destination) arrives, leaves the list of node 0, and the counter of node 1
  goes from 0 to 1; in a frame of 16.667 ms the pulse stays, with progress 0.002. On the
  chain of three nodes with the forward draw 0.5 the process node does not forward, and
  the step leaves its counter at 1.
\<close>

theorem updatePulses_progress_witness:
  "n_pulses (store (sendRandomImpulse 0 (demoPair [0.9, 0, 0, 0.9, 0, 0, 0.5, 0, 0])) 0) =
     [\<lparr>p_ident = 0, p_source = 0, p_target = 1, p_progress = 0, p_speed = 0.002\<rparr>] \<and>
   n_type (store (sendRandomImpulse 0 (demoPair [0.9, 0, 0, 0.9, 0, 0, 0.5, 0, 0])) 1) = ''destination'' \<and>
   arrivals 10000 1
     (n_pulses (store (sendRandomImpulse 0 (demoPair [0.9, 0, 0, 0.9, 0, 0, 0.5, 0, 0])) 0)) = 1 \<and>
   n_processingPulses (store (sendRandomImpulse 0 (demoPair [0.9, 0, 0, 0.9, 0, 0, 0.5, 0, 0])) 1) = 0 \<and>
   n_processingPulses (store (updatePulses 0 10000
     (sendRandomImpulse 0 (demoPair [0.9, 0, 0, 0.9, 0, 0, 0.5, 0, 0]))) 1) = 1 \<and>
   n_pulses (store (updatePulses 0 10000
     (sendRandomImpulse 0 (demoPair [0.9, 0, 0, 0.9, 0, 0, 0.5, 0, 0]))) 0) = [] \<and>
   n_pulses (store (updatePulses 0 16.667
     (sendRandomImpulse 0 (demoPair [0.9, 0, 0, 0.9, 0, 0, 0.5, 0, 0]))) 0) =
     [\<lparr>p_ident = 0, p_source = 0, p_target = 1, p_progress = 0.002, p_speed = 0.002\<rparr>] \<and>
   n_type (store (sendRandomImpulse 0
      (demoChain [0.9, 0, 0, 0.9, 0, 0, 0.9, 0, 0, 0.5, 0, 0, 0.5])) 1) = ''process'' \<and>
   nextRandom (sendRandomImpulse 0
      (demoChain [0.9, 0, 0, 0.9, 0, 0, 0.9, 0, 0, 0.5, 0, 0, 0.5])) = 0.5 \<and>
   n_processingPulses (store (sendRandomImpulse 0
      (demoChain [0.9, 0, 0, 0.9, 0, 0, 0.9, 0, 0, 0.5, 0, 0, 0.5])) 1) = 0 \<and>
   n_processingPulses (store (pulseStep 0 10000 0 (sendRandomImpulse 0
      (demoChain [0.9, 0, 0, 0.9, 0, 0, 0.9, 0, 0, 0.5, 0, 0, 0.5]))) 1) = 1"
proof -
  let ?W = "sendRandomImpulse 0 (demoPair [0.9, 0, 0, 0.9, 0, 0, 0.5, 0, 0])"
  let ?V = "sendRandomImpulse 0 (demoChain [0.9, 0, 0, 0.9, 0, 0, 0.9, 0, 0, 0.5, 0, 0, 0.5])"
  have a: "n_pulses (store ?W 0) =
     [\<lparr>p_ident = 0, p_source = 0, p_target = 1, p_progress = 0, p_speed = 0.002\<rparr>]"
    by (simp add: demo_defs cong: let_weak_cong prod.case_cong_weak)
  have b: "n_type (store ?W 1) = ''destination''" "n_processingPulses (store ?W 1) = 0"
    by (simp_all add: demo_defs cong: let_weak_cong prod.case_cong_weak)
  have c: "arrivals 10000 1 (n_pulses (store ?W 0)) = 1"
    unfolding a by (simp add: arrivals_def advance_def)
  note T = updatePulses_progress [where this = 0 and deltaTime = 10000 and w = ?W and t = 1 and i = 0 and r = 0]
  from T have d0: "n_type (store ?W 1) \<noteq> ''process'' \<longrightarrow>
      n_processingPulses (store (updatePulses 0 10000 ?W) 1) =
      n_processingPulses (store ?W 1) + int (arrivals 10000 1 (n_pulses (store ?W 0)))"
    by blast
  have d: "n_processingPulses (store (updatePulses 0 10000 ?W) 1) = 1"
    using d0 b c by simp
  from T have e0: "\<forall>q \<in> set (n_pulses (store (updatePulses 0 10000 ?W) 0)). p_progress q < 1"
    by blast
  from T obtain extra where e1: "n_pulses (store (updatePulses 0 10000 ?W) 0) =
        filter (\<lambda>p. p_progress p < 1) (map (advance 10000) (n_pulses (store ?W 0))) @ extra"
    by blast
  have e: "n_pulses (store (updatePulses 0 10000 ?W) 0) = []"
    by (simp add: demo_defs cong: let_weak_cong prod.case_cong_weak)
  have f: "n_pulses (store (updatePulses 0 16.667 ?W) 0) =
     [\<lparr>p_ident = 0, p_source = 0, p_target = 1, p_progress = 0.002, p_speed = 0.002\<rparr>]"
    by (simp add: demo_defs cong: let_weak_cong prod.case_cong_weak)
  have g: "n_pulses (store ?V 0) =
     [\<lparr>p_ident = 0, p_source = 0, p_target = 1, p_progress = 0, p_speed = 0.002\<rparr>]"
    "n_type (store ?V 1) = ''process''" "nextRandom ?V = 0.5" "n_processingPulses (store ?V 1) = 0"
    by (simp_all add: demo_defs cong: let_weak_cong prod.case_cong_weak)
  have g': "1 \<le> p_progress (advance 10000 (n_pulses (store ?V 0) ! 0))"
    "p_target (n_pulses (store ?V 0) ! 0) = 1"
    unfolding g(1) by (simp_all add: advance_def)
  note U = updatePulses_progress [where this = 0 and deltaTime = 10000 and w = ?V and i = 0 and t = 1 and r = 0]
  from U have h0: "1 \<le> p_progress (advance 10000 (n_pulses (store ?V 0) ! 0)) \<longrightarrow>
      n_processingPulses (store (pulseStep 0 10000 0 ?V) (p_target (n_pulses (store ?V 0) ! 0))) =
        n_processingPulses (store ?V (p_target (n_pulses (store ?V 0) ! 0))) + 1 -
        (if n_type (store ?V (p_target (n_pulses (store ?V 0) ! 0))) = ''process'' \<and>
            nextRandom ?V > 0.7 \<and> forwardEmits (p_target (n_pulses (store ?V 0) ! 0)) ?V \<and>
            0 < n_processingPulses (store ?V (p_target (n_pulses (store ?V 0) ! 0))) + 1
         then 1 else 0)"
    by blast
  have h: "n_processingPulses (store (pulseStep 0 10000 0 ?V) 1) = 1"
    using h0 g' g(2-4) by simp
  from a b c d e f g h show ?thesis by simp
qed

text \<open>
  The claim as stated (the target's counter increases by exactly 1 in the step in which
  the pulse is retired) fails when the target forwards at once. On the chain of three
  nodes, with a frame of 10000 ms, the pulse of the source towards the process node
  arrives, the draw 0.8 lets the process node forward to the destination in the same call,
  and the emission takes the increment back: the pulse has left the source's list, and the
  counter of the process node is 0 before and after the call.
\<close>

theorem updatePulses_counter_counterexample:
  "n_pulses (store (sendRandomImpulse 0
      (demoChain [0.9, 0, 0, 0.9, 0, 0, 0.9, 0, 0, 0.5, 0, 0, 0.8, 0.5, 0, 0])) 0) =
     [\<lparr>p_ident = 0, p_source = 0, p_target = 1, p_progress = 0, p_speed = 0.002\<rparr>] \<and>
   n_processingPulses (store (sendRandomImpulse 0
      (demoChain [0.9, 0, 0, 0.9, 0, 0, 0.9, 0, 0, 0.5, 0, 0, 0.8, 0.5, 0, 0])) 1) = 0 \<and>
   n_pulses (store (updatePulses 0 10000 (sendRandomImpulse 0
      (demoChain [0.9, 0, 0, 0.9, 0, 0, 0.9, 0, 0, 0.5, 0, 0, 0.8, 0.5, 0, 0]))) 0) = [] \<and>
   n_processingPulses (store (updatePulses 0 10000 (sendRandomImpulse 0
      (demoChain [0.9, 0, 0, 0.9, 0, 0, 0.9, 0, 0, 0.5, 0, 0, 0.8, 0.5, 0, 0]))) 1) = 0 \<and>
   n_pulses (store (updatePulses 0 10000 (sendRandomImpulse 0
      (demoChain [0.9, 0, 0, 0.9, 0, 0, 0.9, 0, 0, 0.5, 0, 0, 0.8, 0.5, 0, 0]))) 1) =
     [\<lparr>p_ident = 1, p_source = 1, p_target = 2, p_progress = 0, p_speed = 0.002\<rparr>]"
  by (simp add: demo_defs cong: let_weak_cong prod.case_cong_weak)

section \<open>Position integration\<close>


lemma foldl_upd_frame [simp]:
  "nodes (foldl (\<lambda>v node. upd node f v) w xs) = nodes w"
  "pulsePool (foldl (\<lambda>v node. upd node f v) w xs) = pulsePool w"
  "nextPulse (foldl (\<lambda>v node. upd node f v) w xs) = nextPulse w"
  "nextRef (foldl (\<lambda>v node. upd node f v) w xs) = nextRef w"
  "randoms (foldl (\<lambda>v node. upd node f v) w xs) = randoms w"
  "drawn (foldl (\<lambda>v node. upd node f v) w xs) = drawn w"
  "isDragging (foldl (\<lambda>v node. upd node f v) w xs) = isDragging w"
  "selectedNode (foldl (\<lambda>v node. upd node f v) w xs) = selectedNode w"
  "offsetX (foldl (\<lambda>v node. upd node f v) w xs) = offsetX w"
  "offsetY (foldl (\<lambda>v node. upd node f v) w xs) = offsetY w"
  by (induction xs arbitrary: w) simp_all

lemma positionStep_dragged: "n_isDragged n \<Longrightarrow> positionStep width height s n = n"
  by (simp add: positionStep_def)

lemma positionStep_fields:
  assumes "\<not> n_isDragged n"
  shows "n_radius (positionStep width height s n) = n_radius n"
    and "n_isDragged (positionStep width height s n) = n_isDragged n"
    and "n_x (positionStep width height s n) =
           clampHigh (width - n_radius n * 2) (clampLow (n_radius n * 2) (n_x n + n_vx n * s))"
    and "n_y (positionStep width height s n) =
           clampHigh (height - n_radius n * 2) (clampLow (n_radius n * 2) (n_y n + n_vy n * s))"
proof -
  define n1 where "n1 = n\<lparr>n_x := n_x n + n_vx n * s\<rparr>"
  define n2 where "n2 = n1\<lparr>n_y := n_y n1 + n_vy n1 * s\<rparr>"
  define padding where "padding = n_radius n2 * 2"
  define n3 where "n3 = (if n_x n2 < padding then n2\<lparr>n_x := padding, n_vx := \<bar>n_vx n2\<bar> * 0.5\<rparr> else n2)"
  define n4 where "n4 = (if n_x n3 > width - padding
                               then n3\<lparr>n_x := width - padding, n_vx := - \<bar>n_vx n3\<bar> * 0.5\<rparr>
                               else n3)"
  define n5 where "n5 = (if n_y n4 < padding then n4\<lparr>n_y := padding, n_vy := \<bar>n_vy n4\<bar> * 0.5\<rparr> else n4)"
  define n6 where "n6 = (if n_y n5 > height - padding
                        then n5\<lparr>n_y := height - padding, n_vy := - \<bar>n_vy n5\<bar> * 0.5\<rparr>
                        else n5)"
  define out where "out \<longleftrightarrow> n_x n2 < padding \<or> n_x n2 > width - padding \<or>
                  n_y n2 < padding \<or> n_y n2 > height - padding"
  have ps: "positionStep width height s n = (if out then n6 else n2)"
    unfolding positionStep_def Let_def n6_def n5_def n4_def n3_def out_def padding_def n2_def n1_def
    by (simp only: assms if_False)
  have pd: "padding = n_radius n * 2"
    by (simp add: padding_def n2_def n1_def)
  have f2: "n_radius n2 = n_radius n" "n_isDragged n2 = n_isDragged n"
    "n_x n2 = n_x n + n_vx n * s" "n_y n2 = n_y n + n_vy n * s"
    by (simp_all add: n2_def n1_def)
  have f3: "n_radius n3 = n_radius n" "n_isDragged n3 = n_isDragged n"
    "n_x n3 = clampLow padding (n_x n2)" "n_y n3 = n_y n2"
    by (simp_all add: n3_def f2 clampLow_def)
  have f4: "n_radius n4 = n_radius n" "n_isDragged n4 = n_isDragged n"
    "n_x n4 = clampHigh (width - padding) (n_x n3)" "n_y n4 = n_y n3"
    by (simp_all add: n4_def f3 clampHigh_def)
  have f5: "n_radius n5 = n_radius n" "n_isDragged n5 = n_isDragged n"
    "n_x n5 = n_x n4" "n_y n5 = clampLow padding (n_y n4)"
    by (simp_all add: n5_def f4 clampLow_def)
  have f6: "n_radius n6 = n_radius n" "n_isDragged n6 = n_isDragged n"
    "n_x n6 = n_x n5" "n_y n6 = clampHigh (height - padding) (n_y n5)"
    by (simp_all add: n6_def f5 clampHigh_def)
  have inside: "clampHigh (width - padding) (clampLow padding (n_x n2)) = n_x n2"
    "clampHigh (height - padding) (clampLow padding (n_y n2)) = n_y n2" if "\<not> out"
    using that by (auto simp add: out_def clampHigh_def clampLow_def)
  show "n_radius (positionStep width height s n) = n_radius n"
    by (simp add: ps f6 f2)
  show "n_isDragged (positionStep width height s n) = n_isDragged n"
    by (simp add: ps f6 f2)
  show "n_x (positionStep width height s n) =
           clampHigh (width - n_radius n * 2) (clampLow (n_radius n * 2) (n_x n + n_vx n * s))"
    using inside(1) by (cases out) (simp_all add: ps f6 f5 f4 f3 f2 pd [symmetric])
  show "n_y (positionStep width height s n) =
           clampHigh (height - n_radius n * 2) (clampLow (n_radius n * 2) (n_y n + n_vy n * s))"
    using inside(2) by (cases out) (simp_all add: ps f6 f5 f4 f3 f2 pd [symmetric])
qed



lemma positionStep_keeps [simp]:
  "n_radius (positionStep width height s n) = n_radius n"
  "n_isDragged (positionStep width height s n) = n_isDragged n"
  using positionStep_fields(1,2) [of n width height s] positionStep_dragged [of n width height s]
  by (cases "n_isDragged n"; simp)+

lemma positionStep_funpow_keeps [simp]:
  "n_radius ((positionStep width height s ^^ k) n) = n_radius n"
  "n_isDragged ((positionStep width height s ^^ k) n) = n_isDragged n"
  by (induction k) simp_all









section \<open>The layout pass\<close>

text \<open>Square roots met when the layout runs on the single-node scene.\<close>

lemma sqrt_eval:
  "sqrt (729 / 4) = 27 / 2" "sqrt (263169 / 400) = 513 / 20" "sqrt (81 / 4) = 9 / 2"
  using real_sqrt_abs [of "27 / 2"] real_sqrt_abs [of "513 / 20"] real_sqrt_abs [of "9 / 2"]
  by (simp_all add: power2_eq_square)

lemmas layout_defs = demo_defs demoSolo_def applyForceLayout_def makeConfig_def defaultContentRect_def
  snapshotStep_def blendStep_def enforceBoundaries_def limitVelocities_def limitVelocity_def
  applyForces_def forceStep_def applyContentRepulsion_def applyEdgeForces_def
  applyNodeRepulsion_def repelPair_def applyConnectionAttractions_def attractNode_def
  attractPair_def checkNodeSelection_def handleMouseMove_def dragSelected_def
  eval_nat_numeral sqrt_eval

text \<open>
  Claim C7. \<open>applyForceLayout\<close> with strength 0 (and with any strength that is not
  positive) returns at its first statement: the world is unchanged, no velocity and no
  position is written.
\<close>

theorem applyForceLayout_zero_strength:
  "applyForceLayout width height contentRect 0 w = w \<and>
   (strength \<le> 0 \<longrightarrow> applyForceLayout width height contentRect strength w = w)"
  by (simp add: applyForceLayout_def)

text \<open>
  The theorem on the single-node scene after a strong pass (strength 1.5), which leaves
  the node with a velocity below -14: a pass with strength 0, or -1, returns that world
  unchanged, whereas a gentle pass (strength 0.5) on the same world writes the velocity.
\<close>

theorem applyForceLayout_zero_strength_witness:
  "n_vx (store (applyForceLayout 800 600 None 1.5 (demoSolo [0.9, 0, 0])) 0) < - 14 \<and>
   applyForceLayout 800 600 None 0 (applyForceLayout 800 600 None 1.5 (demoSolo [0.9, 0, 0])) =
     applyForceLayout 800 600 None 1.5 (demoSolo [0.9, 0, 0]) \<and>
   applyForceLayout 800 600 None (- 1) (applyForceLayout 800 600 None 1.5 (demoSolo [0.9, 0, 0])) =
     applyForceLayout 800 600 None 1.5 (demoSolo [0.9, 0, 0]) \<and>
   - 8 < n_vx (store (applyForceLayout 800 600 None 0.5
            (applyForceLayout 800 600 None 1.5 (demoSolo [0.9, 0, 0]))) 0)"
proof -
  let ?S = "applyForceLayout 800 600 None 1.5 (demoSolo [0.9, 0, 0])"
  have a: "(let S = ?S in n_vx (store S 0) = - 14.175 \<and> n_vx (store (applyForceLayout 800 600 None 0.5 S) 0) = - 7.0875)"
    by (simp add: layout_defs cong: let_weak_cong prod.case_cong_weak)
  have b: "applyForceLayout 800 600 None 0 ?S = ?S"
    "applyForceLayout 800 600 None (- 1) ?S = ?S"
    using applyForceLayout_zero_strength [where width = 800 and height = 600 and contentRect = None
        and w = ?S and strength = "- 1"] by simp_all
  from a b show ?thesis by (simp add: Let_def)
qed

text \<open>
  Claim C1 does not hold of the code. The force functions skip dragged nodes, as
  \<open>updatePositions\<close> and the per-frame damping do, but the first and the last loop of
  \<open>applyForceLayout\<close> do not look at \<open>isDragged\<close>: the velocity of a dragged node is
  recorded, set to zero and finally replaced by 0.3 times the recorded one, and
  \<open>enforceBoundaries\<close> then clamps its position. On the single-node scene: after a strong
  pass the node has a velocity below -14; it is pressed (so it is dragged) and a gentle pass
  leaves it dragged with a velocity above -5. Dragged to the left edge it sits at
  \<open>x = radius = 5\<close>, where the drag handler keeps it, and the gentle pass moves it to
  \<open>x = radius * 2 = 10\<close>.
\<close>

theorem applyForceLayout_dragged_written:
  "(let D = checkNodeSelection 100 300 (applyForceLayout 800 600 None 1.5 (demoSolo [0.9, 0, 0]));
        E = handleMouseMove 0 300 800 600 D
    in n_isDragged (store D 0) \<and> n_vx (store D 0) < - 14 \<and>
       n_isDragged (store (applyForceLayout 800 600 None 0.5 D) 0) \<and>
       - 5 < n_vx (store (applyForceLayout 800 600 None 0.5 D) 0) \<and>
       n_isDragged (store E 0) \<and> n_radius (store E 0) = 5 \<and> n_x (store E 0) = 5 \<and>
       n_isDragged (store (applyForceLayout 800 600 None 0.5 E) 0) \<and>
       n_x (store (applyForceLayout 800 600 None 0.5 E) 0) = 10)"
  by (simp add: layout_defs cong: let_weak_cong prod.case_cong_weak)

end
